theory Spec2Isabelle
  imports Complex_Main
begin

section \<open>The school administration backend (src/main.py)\<close>

text \<open>
  The program is a set of FastAPI handlers over SQLModel tables kept in one SQLite file.
  Each handler receives a session, reads and changes ORM objects, and writes them with a
  single \<open>session.commit()\<close>. The embedding below follows the source handler by handler:
  a table is the list of its rows in insertion order, a handler is a function from the
  store (and its arguments) to either the exception it raises or the committed store
  together with the object it returns.

  A handler returns the ORM object it returns in the source; what FastAPI then does with
  it (the \<open>response_model\<close> of the route) and what it does before the handler runs (the
  parsing of the request body into the parameter) are not part of the handlers and are
  not modelled. A body is the object the handler receives: an \<open>Issue\<close> body has its
  \<open>issue_date\<close>, filled in with the current date when the request gave none.

  The engine is SQLite as \<open>create_engine\<close> opens it. The source never issues
  \<open>PRAGMA foreign_keys\<close>, so the \<open>foreign_key\<close> declarations of the models are not enforced
  on insert or update; primary keys and NOT NULL columns are.

  Field names are those of the source, prefixed where two classes share a name:
  \<open>Student.id\<close> is \<open>student_id\<close>, \<open>Issue.student_id\<close> is \<open>issue_student_id\<close>, and so on.
  Python's unbounded \<open>int\<close> is \<open>int\<close>, \<open>Optional[T]\<close> is \<open>T option\<close>, \<open>float\<close> values are only
  stored and handed back, never computed with, and are carried as \<open>real\<close>.
\<close>

subsection \<open>Models and schemas\<close>

datatype date = Date int int int

type_synonym pyfloat = real

record classroomstudent =
  link_classroom_id :: "int option"
  link_student_id :: "int option"

record studentbase =
  student_name :: string
  student_contact_number :: string
  student_dob :: date

record student = studentbase +
  student_id :: "int option"

record staffbase =
  staff_name :: string
  staff_contact_number :: string
  staff_dob :: date

record staff = staffbase +
  staff_id :: "int option"

record classroombase =
  class_name :: string
  std :: string
  sec :: string
  class_teacher :: string

record classroom = classroombase +
  classroom_id :: "int option"

record bookbase =
  title :: string
  author :: string
  isbn :: string
  total_copies :: int

record book = bookbase +
  book_id :: "int option"
  available_copies :: int

record issue =
  issue_id :: "int option"
  issue_student_id :: int
  issue_book_id :: int
  issue_date :: date
  return_date :: "date option"

record examresult =
  result_id :: "int option"
  result_student_id :: int
  exam_name :: string
  marks_obtained :: pyfloat
  max_marks :: pyfloat

record examfee =
  fee_id :: "int option"
  fee_student_id :: int
  amount :: pyfloat
  due_date :: date
  paid :: bool

text \<open>
  \<open>update_fee\<close> reads its body only through \<open>fee.dict(exclude_unset=True)\<close>, the dictionary
  of the fields that the request set. \<open>examfee_set\<close> is that dictionary: one entry per
  field of \<open>ExamFee\<close>, \<open>None\<close> for a field the request did not set. The identifier is
  \<open>Optional[int]\<close>, so a request can also set it to null (\<open>Some None\<close>).
\<close>

record examfee_set =
  set_id :: "int option option"
  set_student_id :: "int option"
  set_amount :: "pyfloat option"
  set_due_date :: "date option"
  set_paid :: "bool option"

subsection \<open>The store and the session\<close>

record db =
  students :: "student list"
  staff_members :: "staff list"
  classrooms :: "classroom list"
  classroom_students :: "classroomstudent list"
  books :: "book list"
  issues :: "issue list"
  exam_results :: "examresult list"
  exam_fees :: "examfee list"

definition empty_db :: db where
  "empty_db = \<lparr>students = [], staff_members = [], classrooms = [], classroom_students = [],
     books = [], issues = [], exam_results = [], exam_fees = []\<rparr>"

text \<open>
  The exceptions a handler can end with: the \<open>HTTPException\<close> it raises itself (status and
  detail), \<open>IntegrityError\<close> from the commit (a primary key that is already taken, a primary
  key or another NOT NULL column set to null) and \<open>AttributeError\<close> (an attribute of
  \<open>None\<close>). An exception ends the request before \<open>session.commit()\<close> returns, so nothing
  of the session reaches the store.
\<close>

datatype error = HTTPException int string | IntegrityError | AttributeError

text \<open>\<open>session.get(Model, k)\<close>: the row whose primary key is \<open>k\<close>, or \<open>None\<close>.\<close>

definition session_get :: "('r \<Rightarrow> int option) \<Rightarrow> 'r list \<Rightarrow> int \<Rightarrow> 'r option" where
  "session_get key rows k = find (\<lambda>r. key r = Some k) rows"

definition primary_keys :: "('r \<Rightarrow> int option) \<Rightarrow> 'r list \<Rightarrow> int list" where
  "primary_keys key rows = List.map_filter key rows"

text \<open>
  The key SQLite gives a row inserted with a null \<open>INTEGER PRIMARY KEY\<close>: 1 in an empty
  table, otherwise one more than the largest key in use.
\<close>

definition next_rowid :: "int list \<Rightarrow> int" where
  "next_rowid ks = (case ks of [] \<Rightarrow> 1 | k # ks' \<Rightarrow> fold max ks' k + 1)"

text \<open>
  \<open>session.add(obj); session.commit(); session.refresh(obj)\<close> for a new object: a null key
  is assigned by the engine, a given key must be free. The refreshed object is returned
  with the table. \<open>set_key\<close> writes the primary key field of the row type.
\<close>

definition session_add ::
  "('r \<Rightarrow> int option) \<Rightarrow> (int option \<Rightarrow> 'r \<Rightarrow> 'r) \<Rightarrow> 'r list \<Rightarrow> 'r \<Rightarrow> error + ('r list \<times> 'r)" where
  "session_add key set_key rows r =
     (case key r of
        None \<Rightarrow> (let r' = set_key (Some (next_rowid (primary_keys key rows))) r
                 in Inr (rows @ [r'], r'))
      | Some k \<Rightarrow> (if k \<in> set (primary_keys key rows) then Inl IntegrityError
                   else Inr (rows @ [r], r)))"

text \<open>The UPDATE that a commit issues for a changed object loaded under key \<open>k\<close>.\<close>

definition session_update :: "('r \<Rightarrow> int option) \<Rightarrow> int \<Rightarrow> 'r \<Rightarrow> 'r list \<Rightarrow> 'r list" where
  "session_update key k r' rows = map (\<lambda>r. if key r = Some k then r' else r) rows"

text \<open>The DELETE that a commit issues after \<open>session.delete\<close> of the object under key \<open>k\<close>.\<close>

definition session_delete :: "('r \<Rightarrow> int option) \<Rightarrow> int \<Rightarrow> 'r list \<Rightarrow> 'r list" where
  "session_delete key k rows = filter (\<lambda>r. key r \<noteq> Some k) rows"

subsection \<open>Student and staff handlers\<close>

definition create_student :: "db \<Rightarrow> studentbase \<Rightarrow> error + (db \<times> student)" where
  "create_student d b =
     (let db_student = \<lparr>student_name = student_name b,
                         student_contact_number = student_contact_number b,
                         student_dob = student_dob b, student_id = None\<rparr>
      in case session_add student_id (\<lambda>v r. r\<lparr>student_id := v\<rparr>) (students d) db_student of
           Inl e \<Rightarrow> Inl e
         | Inr (rows, db_student') \<Rightarrow> Inr (d\<lparr>students := rows\<rparr>, db_student'))"

definition list_students :: "db \<Rightarrow> error + (db \<times> student list)" where
  "list_students d = Inr (d, students d)"

definition get_student :: "db \<Rightarrow> int \<Rightarrow> error + (db \<times> student)" where
  "get_student d sid =
     (case session_get student_id (students d) sid of
        None \<Rightarrow> Inl (HTTPException 404 ''Student not found'')
      | Some db_student \<Rightarrow> Inr (d, db_student))"

definition update_student :: "db \<Rightarrow> int \<Rightarrow> studentbase \<Rightarrow> error + (db \<times> student)" where
  "update_student d sid b =
     (case session_get student_id (students d) sid of
        None \<Rightarrow> Inl (HTTPException 404 ''Student not found'')
      | Some db_student \<Rightarrow>
          (let db_student' = db_student\<lparr>student_name := student_name b,
                                         student_contact_number := student_contact_number b,
                                         student_dob := student_dob b\<rparr>
           in Inr (d\<lparr>students := session_update student_id sid db_student' (students d)\<rparr>,
                   db_student')))"

text \<open>
  \<open>session.delete\<close> of a student: the ORM deletes the student's rows of the link table, and
  sets \<open>student_id\<close> to null in the student's issues, results and fees, which those NOT NULL
  columns refuse; a student who has any of them is therefore not deleted.
\<close>

definition delete_student :: "db \<Rightarrow> int \<Rightarrow> error + (db \<times> unit)" where
  "delete_student d sid =
     (case session_get student_id (students d) sid of
        None \<Rightarrow> Inl (HTTPException 404 ''Student not found'')
      | Some db_student \<Rightarrow>
          (if list_ex (\<lambda>i. issue_student_id i = sid) (issues d)
              \<or> list_ex (\<lambda>r. result_student_id r = sid) (exam_results d)
              \<or> list_ex (\<lambda>f. fee_student_id f = sid) (exam_fees d)
           then Inl IntegrityError
           else Inr (d\<lparr>students := session_delete student_id sid (students d),
                       classroom_students :=
                         filter (\<lambda>l. link_student_id l \<noteq> Some sid) (classroom_students d)\<rparr>,
                     ())))"

definition create_staff :: "db \<Rightarrow> staffbase \<Rightarrow> error + (db \<times> staff)" where
  "create_staff d b =
     (let db_staff = \<lparr>staff_name = staff_name b,
                       staff_contact_number = staff_contact_number b,
                       staff_dob = staff_dob b, staff_id = None\<rparr>
      in case session_add staff_id (\<lambda>v r. r\<lparr>staff_id := v\<rparr>) (staff_members d) db_staff of
           Inl e \<Rightarrow> Inl e
         | Inr (rows, db_staff') \<Rightarrow> Inr (d\<lparr>staff_members := rows\<rparr>, db_staff'))"

definition list_staff :: "db \<Rightarrow> error + (db \<times> staff list)" where
  "list_staff d = Inr (d, staff_members d)"

definition get_staff :: "db \<Rightarrow> int \<Rightarrow> error + (db \<times> staff)" where
  "get_staff d k =
     (case session_get staff_id (staff_members d) k of
        None \<Rightarrow> Inl (HTTPException 404 ''Staff not found'')
      | Some db_staff \<Rightarrow> Inr (d, db_staff))"

definition update_staff :: "db \<Rightarrow> int \<Rightarrow> staffbase \<Rightarrow> error + (db \<times> staff)" where
  "update_staff d k b =
     (case session_get staff_id (staff_members d) k of
        None \<Rightarrow> Inl (HTTPException 404 ''Staff not found'')
      | Some db_staff \<Rightarrow>
          (let db_staff' = db_staff\<lparr>staff_name := staff_name b,
                                     staff_contact_number := staff_contact_number b,
                                     staff_dob := staff_dob b\<rparr>
           in Inr (d\<lparr>staff_members := session_update staff_id k db_staff' (staff_members d)\<rparr>,
                   db_staff')))"

definition delete_staff :: "db \<Rightarrow> int \<Rightarrow> error + (db \<times> unit)" where
  "delete_staff d k =
     (case session_get staff_id (staff_members d) k of
        None \<Rightarrow> Inl (HTTPException 404 ''Staff not found'')
      | Some db_staff \<Rightarrow> Inr (d\<lparr>staff_members := session_delete staff_id k (staff_members d)\<rparr>, ()))"

subsection \<open>Classrooms and the roster\<close>

definition create_classroom :: "db \<Rightarrow> classroombase \<Rightarrow> error + (db \<times> classroom)" where
  "create_classroom d b =
     (let db_class = \<lparr>class_name = class_name b, std = std b, sec = sec b,
                       class_teacher = class_teacher b, classroom_id = None\<rparr>
      in case session_add classroom_id (\<lambda>v r. r\<lparr>classroom_id := v\<rparr>) (classrooms d) db_class of
           Inl e \<Rightarrow> Inl e
         | Inr (rows, db_class') \<Rightarrow> Inr (d\<lparr>classrooms := rows\<rparr>, db_class'))"

definition list_classrooms :: "db \<Rightarrow> error + (db \<times> classroom list)" where
  "list_classrooms d = Inr (d, classrooms d)"

text \<open>
  \<open>db_class.students\<close> is the relationship through the link table: the students paired
  with the classroom there. \<open>db_student in db_class.students\<close> holds exactly when the pair
  (classroom, student) is a row of the link table.
\<close>

definition link :: "int \<Rightarrow> int \<Rightarrow> classroomstudent" where
  "link cid sid = \<lparr>link_classroom_id = Some cid, link_student_id = Some sid\<rparr>"

definition class_students :: "db \<Rightarrow> int \<Rightarrow> student list" where
  "class_students d cid =
     filter (\<lambda>s. case student_id s of None \<Rightarrow> False
                 | Some sid \<Rightarrow> link cid sid \<in> set (classroom_students d)) (students d)"

definition add_student_to_class :: "db \<Rightarrow> int \<Rightarrow> int \<Rightarrow> error + (db \<times> classroom)" where
  "add_student_to_class d cid sid =
     (case (session_get classroom_id (classrooms d) cid, session_get student_id (students d) sid) of
        (Some db_class, Some db_student) \<Rightarrow>
          (if link cid sid \<in> set (classroom_students d)
           then Inl (HTTPException 400 ''Student already in class'')
           else Inr (d\<lparr>classroom_students := classroom_students d @ [link cid sid]\<rparr>, db_class))
      | _ \<Rightarrow> Inl (HTTPException 404 ''Class or Student not found''))"

definition remove_student_from_class :: "db \<Rightarrow> int \<Rightarrow> int \<Rightarrow> error + (db \<times> classroom)" where
  "remove_student_from_class d cid sid =
     (case (session_get classroom_id (classrooms d) cid, session_get student_id (students d) sid) of
        (Some db_class, Some db_student) \<Rightarrow>
          (if link cid sid \<notin> set (classroom_students d)
           then Inl (HTTPException 400 ''Student not in class'')
           else Inr (d\<lparr>classroom_students :=
                         filter (\<lambda>l. l \<noteq> link cid sid) (classroom_students d)\<rparr>, db_class))
      | _ \<Rightarrow> Inl (HTTPException 404 ''Class or Student not found''))"

definition get_class_students :: "db \<Rightarrow> int \<Rightarrow> error + (db \<times> student list)" where
  "get_class_students d cid =
     (case session_get classroom_id (classrooms d) cid of
        None \<Rightarrow> Inl (HTTPException 404 ''Class not found'')
      | Some db_class \<Rightarrow> Inr (d, class_students d cid))"

subsection \<open>Library\<close>

definition add_book :: "db \<Rightarrow> bookbase \<Rightarrow> error + (db \<times> book)" where
  "add_book d b =
     (let db_book = \<lparr>title = title b, author = author b, isbn = isbn b,
                      total_copies = total_copies b, book_id = None,
                      available_copies = total_copies b\<rparr>
      in case session_add book_id (\<lambda>v r. r\<lparr>book_id := v\<rparr>) (books d) db_book of
           Inl e \<Rightarrow> Inl e
         | Inr (rows, db_book') \<Rightarrow> Inr (d\<lparr>books := rows\<rparr>, db_book'))"

definition list_books :: "db \<Rightarrow> error + (db \<times> book list)" where
  "list_books d = Inr (d, books d)"

definition get_book :: "db \<Rightarrow> int \<Rightarrow> error + (db \<times> book)" where
  "get_book d bid =
     (case session_get book_id (books d) bid of
        None \<Rightarrow> Inl (HTTPException 404 ''Book not found'')
      | Some db_book \<Rightarrow> Inr (d, db_book))"

text \<open>
  \<open>issue_book\<close> takes a whole \<open>Issue\<close> as its body and adds that object to the session as
  it came: identifier, dates and all. The student is not looked up.
\<close>

definition issue_book :: "db \<Rightarrow> issue \<Rightarrow> error + (db \<times> issue)" where
  "issue_book d i =
     (case session_get book_id (books d) (issue_book_id i) of
        None \<Rightarrow> Inl (HTTPException 400 ''Book unavailable'')
      | Some db_book \<Rightarrow>
          (if available_copies db_book < 1 then Inl (HTTPException 400 ''Book unavailable'')
           else
             (let db_book' = db_book\<lparr>available_copies := available_copies db_book - 1\<rparr>
              in case session_add issue_id (\<lambda>v r. r\<lparr>issue_id := v\<rparr>) (issues d) i of
                   Inl e \<Rightarrow> Inl e
                 | Inr (rows, i') \<Rightarrow>
                     Inr (d\<lparr>books := session_update book_id (issue_book_id i) db_book' (books d),
                             issues := rows\<rparr>, i'))))"

text \<open>
  \<open>return_book\<close> takes the current date from \<open>date.today()\<close>; here it is the argument
  \<open>today\<close>. The book of the issue is read without a test for \<open>None\<close>: on \<open>None\<close> the
  statement \<open>db_book.available_copies += 1\<close> raises \<open>AttributeError\<close>.
\<close>

definition return_book :: "date \<Rightarrow> db \<Rightarrow> int \<Rightarrow> error + (db \<times> issue)" where
  "return_book today d iid =
     (case session_get issue_id (issues d) iid of
        None \<Rightarrow> Inl (HTTPException 400 ''Invalid return'')
      | Some db_issue \<Rightarrow>
          (if return_date db_issue \<noteq> None then Inl (HTTPException 400 ''Invalid return'')
           else
             (let db_issue' = db_issue\<lparr>return_date := Some today\<rparr>
              in case session_get book_id (books d) (issue_book_id db_issue') of
                   None \<Rightarrow> Inl AttributeError
                 | Some db_book \<Rightarrow>
                     (let db_book' = db_book\<lparr>available_copies := available_copies db_book + 1\<rparr>
                      in Inr (d\<lparr>books := session_update book_id (issue_book_id db_issue')
                                           db_book' (books d),
                                issues := session_update issue_id iid db_issue' (issues d)\<rparr>,
                              db_issue')))))"

definition student_issues :: "db \<Rightarrow> int \<Rightarrow> error + (db \<times> issue list)" where
  "student_issues d sid = Inr (d, filter (\<lambda>i. issue_student_id i = sid) (issues d))"

subsection \<open>Exam results\<close>

definition add_result :: "db \<Rightarrow> examresult \<Rightarrow> error + (db \<times> examresult)" where
  "add_result d r =
     (case session_add result_id (\<lambda>v x. x\<lparr>result_id := v\<rparr>) (exam_results d) r of
        Inl e \<Rightarrow> Inl e
      | Inr (rows, r') \<Rightarrow> Inr (d\<lparr>exam_results := rows\<rparr>, r'))"

definition list_results :: "db \<Rightarrow> error + (db \<times> examresult list)" where
  "list_results d = Inr (d, exam_results d)"

definition get_results :: "db \<Rightarrow> int \<Rightarrow> error + (db \<times> examresult list)" where
  "get_results d sid = Inr (d, filter (\<lambda>r. result_student_id r = sid) (exam_results d))"

definition get_result :: "db \<Rightarrow> int \<Rightarrow> error + (db \<times> examresult)" where
  "get_result d rid =
     (case session_get result_id (exam_results d) rid of
        None \<Rightarrow> Inl (HTTPException 404 ''Result not found'')
      | Some db_result \<Rightarrow> Inr (d, db_result))"

definition delete_result :: "db \<Rightarrow> int \<Rightarrow> error + (db \<times> unit)" where
  "delete_result d rid =
     (case session_get result_id (exam_results d) rid of
        None \<Rightarrow> Inl (HTTPException 404 ''Result not found'')
      | Some db_result \<Rightarrow>
          Inr (d\<lparr>exam_results := session_delete result_id rid (exam_results d)\<rparr>, ()))"

subsection \<open>Exam fees\<close>

definition add_fee :: "db \<Rightarrow> examfee \<Rightarrow> error + (db \<times> examfee)" where
  "add_fee d f =
     (case session_add fee_id (\<lambda>v x. x\<lparr>fee_id := v\<rparr>) (exam_fees d) f of
        Inl e \<Rightarrow> Inl e
      | Inr (rows, f') \<Rightarrow> Inr (d\<lparr>exam_fees := rows\<rparr>, f'))"

definition get_fees :: "db \<Rightarrow> int \<Rightarrow> error + (db \<times> examfee list)" where
  "get_fees d sid = Inr (d, filter (\<lambda>f. fee_student_id f = sid) (exam_fees d))"

definition list_fees :: "db \<Rightarrow> error + (db \<times> examfee list)" where
  "list_fees d = Inr (d, exam_fees d)"

definition get_fee :: "db \<Rightarrow> int \<Rightarrow> error + (db \<times> examfee)" where
  "get_fee d fid =
     (case session_get fee_id (exam_fees d) fid of
        None \<Rightarrow> Inl (HTTPException 404 ''Fee not found'')
      | Some db_fee \<Rightarrow> Inr (d, db_fee))"

text \<open>
  The loop \<open>for key, val in fee.dict(exclude_unset=True).items(): setattr(db_fee, key, val)\<close>:
  every field the body set replaces the stored one, every other field stays.
\<close>

definition setattrs :: "examfee \<Rightarrow> examfee_set \<Rightarrow> examfee" where
  "setattrs db_fee fee =
     \<lparr>fee_id = (case set_id fee of None \<Rightarrow> fee_id db_fee | Some v \<Rightarrow> v),
      fee_student_id = (case set_student_id fee of None \<Rightarrow> fee_student_id db_fee | Some v \<Rightarrow> v),
      amount = (case set_amount fee of None \<Rightarrow> amount db_fee | Some v \<Rightarrow> v),
      due_date = (case set_due_date fee of None \<Rightarrow> due_date db_fee | Some v \<Rightarrow> v),
      paid = (case set_paid fee of None \<Rightarrow> paid db_fee | Some v \<Rightarrow> v)\<rparr>"

text \<open>
  The commit of \<open>update_fee\<close> updates the row loaded under \<open>fid\<close>. A body that sets the
  identifier moves the row to that key; the engine refuses null and a key held by another
  row.
\<close>

definition update_fee :: "db \<Rightarrow> int \<Rightarrow> examfee_set \<Rightarrow> error + (db \<times> examfee)" where
  "update_fee d fid fee =
     (case session_get fee_id (exam_fees d) fid of
        None \<Rightarrow> Inl (HTTPException 404 ''Fee not found'')
      | Some db_fee \<Rightarrow>
          (let db_fee' = setattrs db_fee fee
           in case fee_id db_fee' of
                None \<Rightarrow> Inl IntegrityError
              | Some k \<Rightarrow>
                  (if k \<noteq> fid \<and> k \<in> set (primary_keys fee_id (exam_fees d))
                   then Inl IntegrityError
                   else Inr (d\<lparr>exam_fees := session_update fee_id fid db_fee' (exam_fees d)\<rparr>,
                             db_fee'))))"

definition delete_fee :: "db \<Rightarrow> int \<Rightarrow> error + (db \<times> unit)" where
  "delete_fee d fid =
     (case session_get fee_id (exam_fees d) fid of
        None \<Rightarrow> Inl (HTTPException 404 ''Fee not found'')
      | Some db_fee \<Rightarrow> Inr (d\<lparr>exam_fees := session_delete fee_id fid (exam_fees d)\<rparr>, ()))"

subsection \<open>The application: one request, one transaction\<close>

datatype request =
    CreateStudent studentbase | ListStudents | GetStudent int
  | UpdateStudent int studentbase | DeleteStudent int
  | CreateStaff staffbase | ListStaff | GetStaff int
  | UpdateStaff int staffbase | DeleteStaff int
  | CreateClassroom classroombase | ListClassrooms
  | AddStudentToClass int int | RemoveStudentFromClass int int | GetClassStudents int
  | AddBook bookbase | ListBooks | GetBook int
  | IssueBook issue | ReturnBook int | StudentIssues int
  | AddResult examresult | ListResults | GetResults int | GetResult int | DeleteResult int
  | AddFee examfee | GetFees int | ListFees | GetFee int
  | UpdateFee int examfee_set | DeleteFee int

datatype reply =
    AStudent student | Students "student list"
  | AStaff staff | Staffs "staff list"
  | AClassroom classroom | Classrooms "classroom list"
  | ABook book | Books "book list"
  | AnIssue issue | Issues "issue list"
  | AResult examresult | Results "examresult list"
  | AFee examfee | Fees "examfee list"
  | NoContent

text \<open>
  What the client and the store see of a handler: on an exception the error and the store
  as it was (the session is closed without a commit), otherwise the returned object and
  the committed store.
\<close>

definition respond :: "db \<Rightarrow> ('a \<Rightarrow> reply) \<Rightarrow> error + (db \<times> 'a) \<Rightarrow> db \<times> (error + reply)" where
  "respond d wrap r = (case r of Inl e \<Rightarrow> (d, Inl e) | Inr (d', a) \<Rightarrow> (d', Inr (wrap a)))"

fun handle :: "date \<Rightarrow> db \<Rightarrow> request \<Rightarrow> db \<times> (error + reply)" where
  "handle today d (CreateStudent b) = respond d AStudent (create_student d b)"
| "handle today d ListStudents = respond d Students (list_students d)"
| "handle today d (GetStudent k) = respond d AStudent (get_student d k)"
| "handle today d (UpdateStudent k b) = respond d AStudent (update_student d k b)"
| "handle today d (DeleteStudent k) = respond d (\<lambda>_. NoContent) (delete_student d k)"
| "handle today d (CreateStaff b) = respond d AStaff (create_staff d b)"
| "handle today d ListStaff = respond d Staffs (list_staff d)"
| "handle today d (GetStaff k) = respond d AStaff (get_staff d k)"
| "handle today d (UpdateStaff k b) = respond d AStaff (update_staff d k b)"
| "handle today d (DeleteStaff k) = respond d (\<lambda>_. NoContent) (delete_staff d k)"
| "handle today d (CreateClassroom b) = respond d AClassroom (create_classroom d b)"
| "handle today d ListClassrooms = respond d Classrooms (list_classrooms d)"
| "handle today d (AddStudentToClass c s) = respond d AClassroom (add_student_to_class d c s)"
| "handle today d (RemoveStudentFromClass c s) =
     respond d AClassroom (remove_student_from_class d c s)"
| "handle today d (GetClassStudents c) = respond d Students (get_class_students d c)"
| "handle today d (AddBook b) = respond d ABook (add_book d b)"
| "handle today d ListBooks = respond d Books (list_books d)"
| "handle today d (GetBook k) = respond d ABook (get_book d k)"
| "handle today d (IssueBook i) = respond d AnIssue (issue_book d i)"
| "handle today d (ReturnBook k) = respond d AnIssue (return_book today d k)"
| "handle today d (StudentIssues s) = respond d Issues (student_issues d s)"
| "handle today d (AddResult r) = respond d AResult (add_result d r)"
| "handle today d ListResults = respond d Results (list_results d)"
| "handle today d (GetResults s) = respond d Results (get_results d s)"
| "handle today d (GetResult k) = respond d AResult (get_result d k)"
| "handle today d (DeleteResult k) = respond d (\<lambda>_. NoContent) (delete_result d k)"
| "handle today d (AddFee f) = respond d AFee (add_fee d f)"
| "handle today d (GetFees s) = respond d Fees (get_fees d s)"
| "handle today d ListFees = respond d Fees (list_fees d)"
| "handle today d (GetFee k) = respond d AFee (get_fee d k)"
| "handle today d (UpdateFee k f) = respond d AFee (update_fee d k f)"
| "handle today d (DeleteFee k) = respond d (\<lambda>_. NoContent) (delete_fee d k)"

text \<open>
  A run of the service from a store: the requests in order, each with the date of the day
  it arrives. The reachable stores are the runs from the empty store, the tables as
  \<open>create_db_and_tables\<close> makes them.
\<close>

fun run :: "db \<Rightarrow> (date \<times> request) list \<Rightarrow> db" where
  "run d [] = d"
| "run d ((today, rq) # rqs) = run (fst (handle today d rq)) rqs"

subsection \<open>Example requests and stores\<close>

text \<open>
  A library with one book of one copy, as \<open>add_book\<close> makes it from the empty store, and
  two bodies for \<open>issue_book\<close>: one as a client that sends only the student and the book
  produces it, one that also sets \<open>return_date\<close>.
\<close>

definition some_book :: bookbase where
  "some_book = \<lparr>title = ''T'', author = ''A'', isbn = ''I'', total_copies = 1\<rparr>"

definition open_issue :: issue where
  "open_issue = \<lparr>issue_id = None, issue_student_id = 7, issue_book_id = 1,
                  issue_date = Date 2024 1 2, return_date = None\<rparr>"

definition closed_issue :: issue where
  "closed_issue = \<lparr>issue_id = None, issue_student_id = 7, issue_book_id = 1,
                    issue_date = Date 2024 1 2, return_date = Some (Date 2024 1 3)\<rparr>"

definition one_book :: db where
  "one_book = run empty_db [(Date 2024 1 1, AddBook some_book)]"

definition lent_out :: db where
  "lent_out = run one_book [(Date 2024 1 2, IssueBook open_issue)]"

definition written_off :: db where
  "written_off = run one_book [(Date 2024 1 2, IssueBook closed_issue)]"

subsection \<open>The account of the copies\<close>

text \<open>
  The quantities the proofs about the library keep track of. \<open>outstanding\<close> counts the
  issues of a book that have no return date, \<open>lent\<close> is that count for a book row. A store
  accounts for its copies when, for every book, the copies available and the copies lent
  do not exceed \<open>total_copies\<close> and \<open>available_copies\<close> is not below the smaller of 0 and
  \<open>total_copies\<close>; its issues have books when the \<open>book_id\<close> of every issue is the key of
  a book.
\<close>

definition outstanding :: "issue list \<Rightarrow> int \<Rightarrow> nat" where
  "outstanding rows k = length (filter (\<lambda>i. issue_book_id i = k \<and> return_date i = None) rows)"

definition lent :: "db \<Rightarrow> book \<Rightarrow> int" where
  "lent d b = (case book_id b of None \<Rightarrow> 0 | Some k \<Rightarrow> int (outstanding (issues d) k))"

definition copies_accounted :: "db \<Rightarrow> bool" where
  "copies_accounted d \<longleftrightarrow>
     list_all (\<lambda>b. available_copies b + lent d b \<le> total_copies b
                  \<and> min 0 (total_copies b) \<le> available_copies b) (books d)"

definition issues_have_books :: "db \<Rightarrow> bool" where
  "issues_have_books d \<longleftrightarrow>
     list_all (\<lambda>i. session_get book_id (books d) (issue_book_id i) \<noteq> None) (issues d)"

definition library_inv :: "db \<Rightarrow> bool" where
  "library_inv d \<longleftrightarrow> copies_accounted d \<and> issues_have_books d"

text \<open>A body for \<open>add_book\<close> with a negative number of copies; the handler validates nothing.\<close>

definition debt_book :: bookbase where
  "debt_book = \<lparr>title = ''T'', author = ''A'', isbn = ''I'', total_copies = - 1\<rparr>"

text \<open>
  A student, a classroom with that student enrolled, an exam result for a student that
  does not exist, a fee, and the body of an update that sets nothing but \<open>paid\<close>.
\<close>

definition orphan_result :: examresult where
  "orphan_result = \<lparr>result_id = None, result_student_id = 99, exam_name = ''E'',
                     marks_obtained = 1, max_marks = 2\<rparr>"

definition some_student :: studentbase where
  "some_student = \<lparr>student_name = ''S'', student_contact_number = ''0'',
                    student_dob = Date 2010 1 1\<rparr>"

definition some_fee :: examfee where
  "some_fee = \<lparr>fee_id = None, fee_student_id = 1, amount = 10, due_date = Date 2024 6 1,
                paid = False\<rparr>"

definition only_paid :: examfee_set where
  "only_paid = \<lparr>set_id = None, set_student_id = None, set_amount = None, set_due_date = None,
                 set_paid = Some True\<rparr>"

definition one_fee :: db where
  "one_fee = run empty_db [(Date 2024 1 1, AddFee some_fee)]"

definition some_class :: classroombase where
  "some_class = \<lparr>class_name = ''C'', std = ''5'', sec = ''A'', class_teacher = ''M''\<rparr>"

definition enrolled :: db where
  "enrolled = run empty_db [(Date 2024 1 1, CreateStudent some_student),
                            (Date 2024 1 1, CreateClassroom some_class),
                            (Date 2024 1 2, AddStudentToClass 1 1)]"

section \<open>Properties\<close>

subsection \<open>Lookups, fresh keys and updates\<close>

lemma session_get_Some: "session_get key rows k = Some r \<Longrightarrow> r \<in> set rows \<and> key r = Some k"
  unfolding session_get_def by (induction rows) (auto split: if_splits)

lemma session_get_None: "session_get key rows k = None \<longleftrightarrow> (\<forall>r\<in>set rows. key r \<noteq> Some k)"
  unfolding session_get_def by (auto simp: find_None_iff)

lemma primary_keys_iff: "k \<in> set (primary_keys key rows) \<longleftrightarrow> (\<exists>r\<in>set rows. key r = Some k)"
  unfolding primary_keys_def by (induction rows) (auto split: option.splits)

lemma primary_keys_get: "k \<in> set (primary_keys key rows) \<longleftrightarrow> session_get key rows k \<noteq> None"
  by (simp add: primary_keys_iff session_get_None)

lemma fold_max_ge: "(k::int) \<le> fold max ks k \<and> (\<forall>x\<in>set ks. x \<le> fold max ks k)"
proof (induction ks arbitrary: k)
  case Nil
  then show ?case by simp
next
  case (Cons a ks)
  have 1: "max a k \<le> fold max ks (max a k)" and 2: "\<forall>x\<in>set ks. x \<le> fold max ks (max a k)"
    using Cons.IH [of "max a k"] by auto
  from 1 2 show ?case by auto
qed

lemma next_rowid_fresh: "next_rowid ks \<notin> set ks"
proof (cases ks)
  case Nil
  then show ?thesis by (simp add: next_rowid_def)
next
  case (Cons k ks')
  have "\<forall>x\<in>set (k # ks'). x < fold max ks' k + 1"
    using fold_max_ge [of k ks'] by auto
  then show ?thesis using Cons by (auto simp: next_rowid_def)
qed

lemma next_rowid_get: "session_get key rows (next_rowid (primary_keys key rows)) = None"
  using next_rowid_fresh [of "primary_keys key rows"] by (simp add: primary_keys_get)

lemma session_get_append:
  "session_get key (rows @ [r]) k =
     (case session_get key rows k of Some x \<Rightarrow> Some x
      | None \<Rightarrow> if key r = Some k then Some r else None)"
  unfolding session_get_def by (induction rows) auto

lemma session_get_update_same:
  "session_get key rows k = Some r \<Longrightarrow> key r' = Some k \<Longrightarrow>
   session_get key (session_update key k r' rows) k = Some r'"
  unfolding session_get_def session_update_def by (induction rows) (auto split: if_splits)

lemma session_get_update_other:
  "k' \<noteq> k \<Longrightarrow> key r' = Some k \<Longrightarrow>
   session_get key (session_update key k r' rows) k' = session_get key rows k'"
  unfolding session_get_def session_update_def by (induction rows) auto

lemma session_get_update_None:
  "key r' = Some k \<Longrightarrow>
   session_get key (session_update key k r' rows) k' = None \<longleftrightarrow> session_get key rows k' = None"
  unfolding session_get_def session_update_def by (induction rows) auto

subsection \<open>What the library handlers commit\<close>

lemma issue_book_Inr:
  "issue_book d i = Inr (d1, i1) \<longleftrightarrow>
     (\<exists>b. session_get book_id (books d) (issue_book_id i) = Some b \<and> 1 \<le> available_copies b
        \<and> (case issue_id i of
              None \<Rightarrow> i1 = i\<lparr>issue_id := Some (next_rowid (primary_keys issue_id (issues d)))\<rparr>
            | Some k \<Rightarrow> session_get issue_id (issues d) k = None \<and> i1 = i)
        \<and> d1 = d\<lparr>books := session_update book_id (issue_book_id i)
                             (b\<lparr>available_copies := available_copies b - 1\<rparr>) (books d),
                   issues := issues d @ [i1]\<rparr>)"
  unfolding issue_book_def session_add_def
  by (auto simp: Let_def primary_keys_get split: option.splits if_splits)

lemma issue_book_created:
  assumes "issue_book d i = Inr (d1, i1)"
  shows "\<exists>k. issue_id i1 = Some k \<and> session_get issue_id (issues d) k = None
           \<and> session_get issue_id (issues d1) k = Some i1
           \<and> issue_student_id i1 = issue_student_id i \<and> issue_book_id i1 = issue_book_id i
           \<and> issue_date i1 = issue_date i \<and> return_date i1 = return_date i"
  using assms unfolding issue_book_Inr
  by (cases "issue_id i") (auto simp: session_get_append next_rowid_get)

lemma return_book_Inr:
  "return_book today d k = Inr (d2, i2) \<longleftrightarrow>
     (\<exists>i b. session_get issue_id (issues d) k = Some i \<and> return_date i = None
        \<and> session_get book_id (books d) (issue_book_id i) = Some b
        \<and> i2 = i\<lparr>return_date := Some today\<rparr>
        \<and> d2 = d\<lparr>books := session_update book_id (issue_book_id i)
                             (b\<lparr>available_copies := available_copies b + 1\<rparr>) (books d),
                   issues := session_update issue_id k i2 (issues d)\<rparr>)"
  unfolding return_book_def
  by (auto simp: Let_def split: option.splits if_splits)

lemma return_book_returned:
  "session_get issue_id (issues d) k = Some i \<Longrightarrow> return_date i \<noteq> None \<Longrightarrow>
   return_book today d k = Inl (HTTPException 400 ''Invalid return'')"
  unfolding return_book_def by auto

subsection \<open>One request, one transaction\<close>

lemma respond_error: "snd (respond d wrap r) = Inl e \<Longrightarrow> fst (respond d wrap r) = d"
  by (cases r) (auto simp: respond_def)

lemma handle_error_unchanged: "snd (handle today d rq) = Inl e \<Longrightarrow> fst (handle today d rq) = d"
  by (cases rq) (simp_all add: respond_error)

lemma respond_fst: "fst (respond d wrap r) = (case r of Inl e \<Rightarrow> d | Inr (d', a) \<Rightarrow> d')"
  by (cases r) (auto simp: respond_def)

lemma handle_library_frame:
  assumes "\<forall>b. rq \<noteq> AddBook b" "\<forall>i. rq \<noteq> IssueBook i" "\<forall>k. rq \<noteq> ReturnBook k"
  shows "books (fst (handle today d rq)) = books d \<and> issues (fst (handle today d rq)) = issues d"
  using assms
  by (cases rq)
     (auto simp: respond_fst create_student_def list_students_def get_student_def
        update_student_def delete_student_def create_staff_def list_staff_def get_staff_def
        update_staff_def delete_staff_def create_classroom_def list_classrooms_def
        add_student_to_class_def remove_student_from_class_def get_class_students_def
        list_books_def get_book_def student_issues_def add_result_def list_results_def
        get_results_def get_result_def delete_result_def add_fee_def get_fees_def list_fees_def
        get_fee_def update_fee_def delete_fee_def session_add_def Let_def
        split: sum.splits option.splits prod.splits if_splits)

lemma add_book_Inr:
  "add_book d b = Inr (d1, b1) \<longleftrightarrow>
     b1 = \<lparr>title = title b, author = author b, isbn = isbn b, total_copies = total_copies b,
           book_id = Some (next_rowid (primary_keys book_id (books d))),
           available_copies = total_copies b\<rparr>
     \<and> d1 = d\<lparr>books := books d @ [b1]\<rparr>"
  unfolding add_book_def session_add_def by (auto simp: Let_def)

lemma add_book_total: "\<exists>d1 b1. add_book d b = Inr (d1, b1)"
  unfolding add_book_def session_add_def by (auto simp: Let_def)

lemma returned_step:
  assumes "session_get issue_id (issues d) k = Some i" "return_date i \<noteq> None"
  shows "session_get issue_id (issues (fst (handle today d rq))) k = Some i"
proof (cases rq)
  case (AddBook b)
  obtain d1 b1 where r: "add_book d b = Inr (d1, b1)" using add_book_total by blast
  then have "issues d1 = issues d" by (auto simp: add_book_Inr)
  then show ?thesis using assms AddBook r by (simp add: respond_fst)
next
  case (IssueBook j)
  show ?thesis
  proof (cases "issue_book d j")
    case (Inl e)
    then show ?thesis using assms IssueBook by (simp add: respond_fst)
  next
    case (Inr p)
    obtain d1 i1 where p: "p = (d1, i1)" by (cases p)
    from Inr p have "issues d1 = issues d @ [i1]" by (auto simp: issue_book_Inr)
    then show ?thesis using assms IssueBook Inr p by (simp add: respond_fst session_get_append)
  qed
next
  case (ReturnBook k')
  show ?thesis
  proof (cases "return_book today d k'")
    case (Inl e)
    then show ?thesis using assms ReturnBook by (simp add: respond_fst)
  next
    case (Inr p)
    obtain d2 i2 where p: "p = (d2, i2)" by (cases p)
    from Inr p obtain j where j: "session_get issue_id (issues d) k' = Some j" "return_date j = None"
      and d2: "issues d2 = session_update issue_id k' i2 (issues d)" "i2 = j\<lparr>return_date := Some today\<rparr>"
      by (auto simp: return_book_Inr)
    from j assms have ne: "k \<noteq> k'" by auto
    from session_get_Some [OF j(1)] d2(2) have i2: "issue_id i2 = Some k'" by simp
    have "session_get issue_id (session_update issue_id k' i2 (issues d)) k
            = session_get issue_id (issues d) k"
      using ne i2 by (rule session_get_update_other)
    with d2(1) assms(1) have "session_get issue_id (issues d2) k = Some i" by simp
    then show ?thesis using ReturnBook Inr p by (simp add: respond_fst)
  qed
qed (use assms handle_library_frame [of rq today d] in simp_all)

lemma returned_run:
  "session_get issue_id (issues d) k = Some i \<Longrightarrow> return_date i \<noteq> None \<Longrightarrow>
   session_get issue_id (issues (run d rqs)) k = Some i"
proof (induction rqs arbitrary: d)
  case Nil
  then show ?case by simp
next
  case (Cons a rqs)
  obtain t rq where a: "a = (t, rq)" by (cases a)
  show ?case using Cons.IH [OF returned_step [OF Cons.prems, of t rq] Cons.prems(2)] a by simp
qed

subsection \<open>Evaluating the example stores\<close>

lemmas handler_defs = respond_def add_book_def issue_book_def return_book_def session_add_def
  session_get_def session_update_def primary_keys_def next_rowid_def empty_db_def Let_def

lemma one_book_eq: "one_book = empty_db\<lparr>books := [\<lparr>title = ''T'', author = ''A'', isbn = ''I'',
   total_copies = 1, book_id = Some 1, available_copies = 1\<rparr>]\<rparr>"
  by (simp add: one_book_def some_book_def handler_defs)

lemma lent_out_eq: "lent_out = empty_db\<lparr>books := [\<lparr>title = ''T'', author = ''A'', isbn = ''I'',
   total_copies = 1, book_id = Some 1, available_copies = 0\<rparr>],
   issues := [\<lparr>issue_id = Some 1, issue_student_id = 7, issue_book_id = 1,
                  issue_date = Date 2024 1 2, return_date = None\<rparr>]\<rparr>"
  by (simp add: lent_out_def one_book_eq open_issue_def handler_defs)

subsection \<open>Issuing a book that has no copy left\<close>

text \<open>
  C2. In every store in which the book of the request exists and has \<open>available_copies = 0\<close>,
  \<open>issue_book\<close> raises the HTTP error 400 "Book unavailable" and the store after the
  request is the store before it, that book's \<open>available_copies\<close> included. More generally
  a request of any kind that ends with an error leaves the store as it was.
\<close>

theorem issue_book_unavailable:
  assumes "session_get book_id (books d) (issue_book_id i) = Some b"
    and "available_copies b = 0"
  shows "issue_book d i = Inl (HTTPException 400 ''Book unavailable'')
       \<and> handle today d (IssueBook i) = (d, Inl (HTTPException 400 ''Book unavailable''))
       \<and> (\<forall>t rq e. snd (handle t d rq) = Inl e \<longrightarrow> fst (handle t d rq) = d)"
proof -
  have 1: "issue_book d i = Inl (HTTPException 400 ''Book unavailable'')"
    using assms by (simp add: issue_book_def)
  then have 2: "handle today d (IssueBook i) = (d, Inl (HTTPException 400 ''Book unavailable''))"
    by (simp add: respond_def)
  from 1 2 handle_error_unchanged show ?thesis by blast
qed

theorem issue_book_unavailable_witness:
  "session_get book_id (books lent_out) (issue_book_id open_issue)
     = Some \<lparr>title = ''T'', author = ''A'', isbn = ''I'', total_copies = 1, book_id = Some 1,
             available_copies = 0\<rparr>
   \<and> issue_book lent_out open_issue = Inl (HTTPException 400 ''Book unavailable'')
   \<and> handle (Date 2024 1 3) lent_out (IssueBook open_issue)
       = (lent_out, Inl (HTTPException 400 ''Book unavailable''))"
proof -
  have h: "session_get book_id (books lent_out) (issue_book_id open_issue)
     = Some \<lparr>title = ''T'', author = ''A'', isbn = ''I'', total_copies = 1, book_id = Some 1,
             available_copies = 0\<rparr>"
    by (simp add: lent_out_eq open_issue_def session_get_def empty_db_def)
  from issue_book_unavailable [OF h, of "Date 2024 1 3"] h show ?thesis
    by (simp add: respond_def)
qed

lemma written_off_eq: "written_off = empty_db\<lparr>books := [\<lparr>title = ''T'', author = ''A'', isbn = ''I'',
   total_copies = 1, book_id = Some 1, available_copies = 0\<rparr>],
   issues := [\<lparr>issue_id = Some 1, issue_student_id = 7, issue_book_id = 1,
                  issue_date = Date 2024 1 2, return_date = Some (Date 2024 1 3)\<rparr>]\<rparr>"
  by (simp add: written_off_def one_book_eq closed_issue_def handler_defs)

subsection \<open>Issue, then return\<close>

lemma issue_book_succeeds:
  assumes "session_get book_id (books d) (issue_book_id i) = Some b"
    and "1 \<le> available_copies b"
    and "\<forall>k. issue_id i = Some k \<longrightarrow> session_get issue_id (issues d) k = None"
  shows "\<exists>d1 i1. issue_book d i = Inr (d1, i1)"
  using assms unfolding issue_book_def session_add_def
  by (auto simp: Let_def primary_keys_get split: option.splits)

lemma issue_book_book:
  assumes "issue_book d i = Inr (d1, i1)"
    and "session_get book_id (books d) (issue_book_id i) = Some b"
  shows "session_get book_id (books d1) (issue_book_id i)
           = Some (b\<lparr>available_copies := available_copies b - 1\<rparr>)"
proof -
  from assms have "books d1 = session_update book_id (issue_book_id i)
      (b\<lparr>available_copies := available_copies b - 1\<rparr>) (books d)"
    by (auto simp: issue_book_Inr)
  moreover have "book_id (b\<lparr>available_copies := available_copies b - 1\<rparr>) = Some (issue_book_id i)"
    using session_get_Some [OF assms(2)] by simp
  ultimately show ?thesis using session_get_update_same [OF assms(2)] by simp
qed

text \<open>
  C3, as amended. In every store in which the book of the request exists with
  \<open>available_copies \<ge> 1\<close>, an \<open>issue_book\<close> whose body has a null \<open>return_date\<close> (and an
  identifier that is null or not in use) succeeds; \<open>return_book\<close> on the created issue then
  succeeds and the book is again as it was before the issue, \<open>available_copies\<close> included;
  a second \<open>return_book\<close> on the same issue raises the HTTP error 400 "Invalid return".
\<close>

theorem issue_then_return:
  assumes "session_get book_id (books d) (issue_book_id i) = Some b"
    and "1 \<le> available_copies b"
    and "return_date i = None"
    and "\<forall>k. issue_id i = Some k \<longrightarrow> session_get issue_id (issues d) k = None"
  shows "\<exists>d1 i1 k d2 i2.
           issue_book d i = Inr (d1, i1) \<and> issue_id i1 = Some k
         \<and> return_book t1 d1 k = Inr (d2, i2)
         \<and> session_get book_id (books d2) (issue_book_id i) = Some b
         \<and> return_book t2 d2 k = Inl (HTTPException 400 ''Invalid return'')"
proof -
  from issue_book_succeeds [OF assms(1,2,4)]
  obtain d1 i1 where ib: "issue_book d i = Inr (d1, i1)" by blast
  from issue_book_created [OF ib] obtain k where k: "issue_id i1 = Some k"
    and g1: "session_get issue_id (issues d1) k = Some i1"
    and bk: "issue_book_id i1 = issue_book_id i" and rd: "return_date i1 = return_date i"
    by blast
  let ?b1 = "b\<lparr>available_copies := available_copies b - 1\<rparr>"
  have b1: "session_get book_id (books d1) (issue_book_id i1) = Some ?b1"
    using issue_book_book [OF ib assms(1)] bk by simp
  let ?i2 = "i1\<lparr>return_date := Some t1\<rparr>"
  let ?d2 = "d1\<lparr>books := session_update book_id (issue_book_id i1)
                            (?b1\<lparr>available_copies := available_copies ?b1 + 1\<rparr>) (books d1),
                 issues := session_update issue_id k ?i2 (issues d1)\<rparr>"
  have rb: "return_book t1 d1 k = Inr (?d2, ?i2)"
    unfolding return_book_Inr using g1 b1 rd assms(3) by simp
  have "book_id b = Some (issue_book_id i1)"
    using session_get_Some [OF assms(1)] bk by simp
  then have "session_get book_id (books ?d2) (issue_book_id i1)
               = Some (?b1\<lparr>available_copies := available_copies ?b1 + 1\<rparr>)"
    using session_get_update_same [OF b1] by simp
  then have b2: "session_get book_id (books ?d2) (issue_book_id i) = Some b"
    using bk by simp
  have "session_get issue_id (issues ?d2) k = Some ?i2"
    using session_get_update_same [OF g1, of ?i2] k by simp
  then have "return_book t2 ?d2 k = Inl (HTTPException 400 ''Invalid return'')"
    by (rule return_book_returned) simp
  with ib k rb b2 show ?thesis by blast
qed

theorem issue_then_return_witness:
  "session_get book_id (books one_book) (issue_book_id open_issue)
     = Some \<lparr>title = ''T'', author = ''A'', isbn = ''I'', total_copies = 1, book_id = Some 1,
             available_copies = 1\<rparr>
   \<and> (\<exists>d1 i1 k d2 i2.
           issue_book one_book open_issue = Inr (d1, i1) \<and> issue_id i1 = Some k
         \<and> return_book (Date 2024 1 5) d1 k = Inr (d2, i2)
         \<and> session_get book_id (books d2) (issue_book_id open_issue)
             = Some \<lparr>title = ''T'', author = ''A'', isbn = ''I'', total_copies = 1,
                     book_id = Some 1, available_copies = 1\<rparr>
         \<and> return_book (Date 2024 1 6) d2 k = Inl (HTTPException 400 ''Invalid return''))"
proof -
  have h1: "session_get book_id (books one_book) (issue_book_id open_issue)
     = Some \<lparr>title = ''T'', author = ''A'', isbn = ''I'', total_copies = 1, book_id = Some 1,
             available_copies = 1\<rparr>"
    by (simp add: one_book_eq open_issue_def session_get_def empty_db_def)
  have h2: "1 \<le> available_copies \<lparr>title = ''T'', author = ''A'', isbn = ''I'', total_copies = 1,
      book_id = Some 1, available_copies = 1\<rparr>" by simp
  have h3: "return_date open_issue = None" by (simp add: open_issue_def)
  have h4: "\<forall>k. issue_id open_issue = Some k \<longrightarrow> session_get issue_id (issues one_book) k = None"
    by (simp add: open_issue_def)
  from issue_then_return [OF h1 h2 h3 h4, of "Date 2024 1 5" "Date 2024 1 6"] h1
  show ?thesis by simp
qed

text \<open>
  The claim as it is written, for every body, fails: the body \<open>closed_issue\<close> sets
  \<open>return_date\<close>. The book has one copy, the issue is created, the return of the
  created issue is refused, and the book stays at no copy.
\<close>

theorem issue_then_return_counterexample:
  "session_get book_id (books one_book) (issue_book_id closed_issue)
     = Some \<lparr>title = ''T'', author = ''A'', isbn = ''I'', total_copies = 1, book_id = Some 1,
             available_copies = 1\<rparr>
   \<and> issue_book one_book closed_issue
     = Inr (written_off, closed_issue\<lparr>issue_id := Some 1\<rparr>)
   \<and> return_book (Date 2024 1 5) written_off 1 = Inl (HTTPException 400 ''Invalid return'')
   \<and> session_get book_id (books written_off) (issue_book_id closed_issue)
     = Some \<lparr>title = ''T'', author = ''A'', isbn = ''I'', total_copies = 1, book_id = Some 1,
             available_copies = 0\<rparr>"
  by (simp add: written_off_eq one_book_eq closed_issue_def handler_defs)

subsection \<open>An issue posted with a return date\<close>

text \<open>
  C9. \<open>issue_book\<close> stores the \<open>issue_date\<close> and the \<open>return_date\<close> of its body as they
  come. When the body has a return date and the book has a copy, the issue is created and
  the book loses a copy, and \<open>return_book\<close> on the created issue raises the HTTP error 400
  "Invalid return", at once and after any further requests: the return endpoint never
  gives that copy back. The witness below is such an input.
\<close>

theorem issue_with_return_date:
  assumes "session_get book_id (books d) (issue_book_id i) = Some b"
    and "1 \<le> available_copies b"
    and "return_date i = Some r"
    and "\<forall>k. issue_id i = Some k \<longrightarrow> session_get issue_id (issues d) k = None"
  shows "\<exists>d1 i1 k.
           issue_book d i = Inr (d1, i1) \<and> issue_id i1 = Some k
         \<and> session_get issue_id (issues d1) k = Some i1
         \<and> issue_date i1 = issue_date i \<and> return_date i1 = Some r
         \<and> session_get book_id (books d1) (issue_book_id i)
             = Some (b\<lparr>available_copies := available_copies b - 1\<rparr>)
         \<and> (\<forall>rqs today. return_book today (run d1 rqs) k
               = Inl (HTTPException 400 ''Invalid return''))"
proof -
  from issue_book_succeeds [OF assms(1,2,4)]
  obtain d1 i1 where ib: "issue_book d i = Inr (d1, i1)" by blast
  from issue_book_created [OF ib] obtain k where k: "issue_id i1 = Some k"
    and g1: "session_get issue_id (issues d1) k = Some i1"
    and dt: "issue_date i1 = issue_date i" and rd: "return_date i1 = return_date i"
    by blast
  from rd assms(3) have rd1: "return_date i1 \<noteq> None" "return_date i1 = Some r" by simp_all
  have "\<forall>rqs today. return_book today (run d1 rqs) k = Inl (HTTPException 400 ''Invalid return'')"
    using return_book_returned [OF returned_run [OF g1 rd1(1)] rd1(1)] by blast
  with ib k g1 dt rd1(2) issue_book_book [OF ib assms(1)] show ?thesis by blast
qed

theorem issue_with_return_date_witness:
  "session_get book_id (books one_book) (issue_book_id closed_issue)
     = Some \<lparr>title = ''T'', author = ''A'', isbn = ''I'', total_copies = 1, book_id = Some 1,
             available_copies = 1\<rparr>
   \<and> return_date closed_issue = Some (Date 2024 1 3)
   \<and> (\<exists>d1 i1 k.
           issue_book one_book closed_issue = Inr (d1, i1) \<and> issue_id i1 = Some k
         \<and> session_get issue_id (issues d1) k = Some i1
         \<and> issue_date i1 = Date 2024 1 2 \<and> return_date i1 = Some (Date 2024 1 3)
         \<and> session_get book_id (books d1) (issue_book_id closed_issue)
             = Some \<lparr>title = ''T'', author = ''A'', isbn = ''I'', total_copies = 1,
                     book_id = Some 1, available_copies = 0\<rparr>
         \<and> (\<forall>rqs today. return_book today (run d1 rqs) k
               = Inl (HTTPException 400 ''Invalid return'')))"
proof -
  have h1: "session_get book_id (books one_book) (issue_book_id closed_issue)
     = Some \<lparr>title = ''T'', author = ''A'', isbn = ''I'', total_copies = 1, book_id = Some 1,
             available_copies = 1\<rparr>"
    by (simp add: one_book_eq closed_issue_def session_get_def empty_db_def)
  have h2: "1 \<le> available_copies \<lparr>title = ''T'', author = ''A'', isbn = ''I'', total_copies = 1,
      book_id = Some 1, available_copies = 1\<rparr>" by simp
  have h3: "return_date closed_issue = Some (Date 2024 1 3)" by (simp add: closed_issue_def)
  have h4: "\<forall>k. issue_id closed_issue = Some k \<longrightarrow> session_get issue_id (issues one_book) k = None"
    by (simp add: closed_issue_def)
  from issue_with_return_date [OF h1 h2 h3 h4] h1 h3
  show ?thesis by (simp add: closed_issue_def)
qed

subsection \<open>The copies of a book in the reachable stores\<close>

lemma set_session_update:
  "x \<in> set (session_update key k r' rows) \<longleftrightarrow>
     (x = r' \<and> (\<exists>r\<in>set rows. key r = Some k)) \<or> (x \<in> set rows \<and> key x \<noteq> Some k)"
  unfolding session_update_def by auto

lemma outstanding_append:
  "outstanding (rows @ [i]) k
     = outstanding rows k + (if issue_book_id i = k \<and> return_date i = None then 1 else 0)"
  by (simp add: outstanding_def)

lemma outstanding_none:
  "\<forall>i\<in>set rows. issue_book_id i \<noteq> k \<Longrightarrow> outstanding rows k = 0"
  by (simp add: outstanding_def)

lemma outstanding_Nil: "outstanding [] k = 0"
  by (simp add: outstanding_def)

lemma session_update_Nil: "session_update key k r' [] = []"
  by (simp add: session_update_def)

lemma outstanding_Cons:
  "outstanding (a # rows) k
     = (if issue_book_id a = k \<and> return_date a = None then 1 else 0) + outstanding rows k"
  by (simp add: outstanding_def)

lemma session_update_Cons:
  "session_update key k r' (a # rows)
     = (if key a = Some k then r' else a) # session_update key k r' rows"
  by (simp add: session_update_def)

lemma outstanding_update_le:
  "return_date j' \<noteq> None \<Longrightarrow>
   outstanding (session_update issue_id k j' rows) kb \<le> outstanding rows kb"
  by (induction rows)
     (auto simp: outstanding_Nil outstanding_Cons session_update_Nil session_update_Cons)

lemma outstanding_update_less:
  assumes "return_date j' \<noteq> None" "j \<in> set rows" "issue_id j = Some k" "return_date j = None"
  shows "outstanding (session_update issue_id k j' rows) (issue_book_id j) < outstanding rows (issue_book_id j)"
  using assms(2)
proof (induction rows)
  case Nil
  then show ?case by simp
next
  case (Cons a rows)
  have le: "outstanding (session_update issue_id k j' rows) (issue_book_id j)
              \<le> outstanding rows (issue_book_id j)"
    using assms(1) by (rule outstanding_update_le)
  show ?case
  proof (cases "a = j")
    case True
    then show ?thesis using le assms(1,3,4) by (auto simp: outstanding_Cons session_update_Cons)
  next
    case False
    with Cons have "outstanding (session_update issue_id k j' rows) (issue_book_id j)
              < outstanding rows (issue_book_id j)" by simp
    then show ?thesis using assms(1) by (auto simp: outstanding_Cons session_update_Cons)
  qed
qed

lemma copies_accountedI:
  "(\<And>b. b \<in> set (books d) \<Longrightarrow> available_copies b + lent d b \<le> total_copies b
                  \<and> min 0 (total_copies b) \<le> available_copies b) \<Longrightarrow> copies_accounted d"
  by (simp add: copies_accounted_def list_all_iff)

lemma copies_accountedD:
  "copies_accounted d \<Longrightarrow> b \<in> set (books d) \<Longrightarrow>
   available_copies b + lent d b \<le> total_copies b \<and> min 0 (total_copies b) \<le> available_copies b"
  by (simp add: copies_accounted_def list_all_iff)

lemma issues_have_booksD:
  "issues_have_books d \<Longrightarrow> i \<in> set (issues d) \<Longrightarrow>
   session_get book_id (books d) (issue_book_id i) \<noteq> None"
  by (simp add: issues_have_books_def list_all_iff)

lemma library_inv_empty: "library_inv empty_db"
  by (simp add: library_inv_def copies_accounted_def issues_have_books_def empty_db_def)

lemma library_inv_add_book:
  assumes inv: "library_inv d" and ab: "add_book d b = Inr (d1, b1)"
  shows "library_inv d1"
proof -
  let ?k = "next_rowid (primary_keys book_id (books d))"
  from ab have b1: "book_id b1 = Some ?k" "available_copies b1 = total_copies b1"
    and d1: "books d1 = books d @ [b1]" "issues d1 = issues d"
    by (auto simp: add_book_Inr)
  from inv have ca: "copies_accounted d" and ib: "issues_have_books d"
    by (simp_all add: library_inv_def)
  have fresh: "session_get book_id (books d) ?k = None" by (rule next_rowid_get)
  have "\<forall>i\<in>set (issues d). issue_book_id i \<noteq> ?k"
  proof
    fix i assume "i \<in> set (issues d)"
    from issues_have_booksD [OF ib this] fresh show "issue_book_id i \<noteq> ?k" by auto
  qed
  then have zero: "outstanding (issues d) ?k = 0" by (rule outstanding_none)
  have "copies_accounted d1"
  proof (rule copies_accountedI)
    fix x assume "x \<in> set (books d1)"
    then consider "x \<in> set (books d)" | "x = b1" using d1 by auto
    then show "available_copies x + lent d1 x \<le> total_copies x
                 \<and> min 0 (total_copies x) \<le> available_copies x"
    proof cases
      case 1
      then show ?thesis using copies_accountedD [OF ca 1] d1
        by (simp add: lent_def cong: option.case_cong)
    next
      case 2
      then show ?thesis using b1 d1 zero by (simp add: lent_def)
    qed
  qed
  moreover have "issues_have_books d1"
    using ib d1 unfolding issues_have_books_def list_all_iff
    by (auto simp: session_get_append split: option.splits)
  ultimately show ?thesis by (simp add: library_inv_def)
qed

lemma library_inv_issue_book:
  assumes inv: "library_inv d" and isb: "issue_book d i = Inr (d1, i1)"
  shows "library_inv d1"
proof -
  from isb obtain b where b: "session_get book_id (books d) (issue_book_id i) = Some b"
    and av: "1 \<le> available_copies b"
    and d1: "books d1 = session_update book_id (issue_book_id i)
                          (b\<lparr>available_copies := available_copies b - 1\<rparr>) (books d)"
            "issues d1 = issues d @ [i1]"
    by (auto simp: issue_book_Inr)
  let ?b' = "b\<lparr>available_copies := available_copies b - 1\<rparr>"
  from issue_book_created [OF isb] have bk: "issue_book_id i1 = issue_book_id i" by blast
  from session_get_Some [OF b] have bin: "b \<in> set (books d)" and bid: "book_id b = Some (issue_book_id i)"
    by simp_all
  from inv have ca: "copies_accounted d" and ib: "issues_have_books d"
    by (simp_all add: library_inv_def)
  have "copies_accounted d1"
  proof (rule copies_accountedI)
    fix x assume "x \<in> set (books d1)"
    then consider "x = ?b'" | "x \<in> set (books d)" "book_id x \<noteq> Some (issue_book_id i)"
      using d1(1) by (auto simp: set_session_update)
    then show "available_copies x + lent d1 x \<le> total_copies x
                 \<and> min 0 (total_copies x) \<le> available_copies x"
    proof cases
      case 1
      then show ?thesis using copies_accountedD [OF ca bin] bid av d1(2) bk
        by (simp add: lent_def outstanding_append)
    next
      case 2
      then show ?thesis using copies_accountedD [OF ca 2(1)] d1(2) bk
        by (auto simp: lent_def outstanding_append split: option.splits)
    qed
  qed
  moreover have "issues_have_books d1"
  proof -
    have keep: "\<And>k. session_get book_id (books d) k \<noteq> None \<Longrightarrow> session_get book_id (books d1) k \<noteq> None"
      using d1(1) bid session_get_update_None [of book_id ?b' "issue_book_id i" "books d"] by simp
    have "session_get book_id (books d1) (issue_book_id i1) \<noteq> None"
      using keep [of "issue_book_id i"] b bk by simp
    then show ?thesis using issues_have_booksD [OF ib] keep d1(2)
      by (auto simp: issues_have_books_def list_all_iff)
  qed
  ultimately show ?thesis by (simp add: library_inv_def)
qed

lemma library_inv_return_book:
  assumes inv: "library_inv d" and rb: "return_book today d k = Inr (d2, i2)"
  shows "library_inv d2"
proof -
  from rb obtain j b where j: "session_get issue_id (issues d) k = Some j" "return_date j = None"
    and b: "session_get book_id (books d) (issue_book_id j) = Some b"
    and i2: "i2 = j\<lparr>return_date := Some today\<rparr>"
    and d2: "books d2 = session_update book_id (issue_book_id j)
                          (b\<lparr>available_copies := available_copies b + 1\<rparr>) (books d)"
            "issues d2 = session_update issue_id k i2 (issues d)"
    by (auto simp: return_book_Inr)
  let ?b' = "b\<lparr>available_copies := available_copies b + 1\<rparr>"
  from session_get_Some [OF j(1)] have jin: "j \<in> set (issues d)" and jid: "issue_id j = Some k"
    by simp_all
  from session_get_Some [OF b] have bin: "b \<in> set (books d)" and bid: "book_id b = Some (issue_book_id j)"
    by simp_all
  from i2 have ret: "return_date i2 \<noteq> None" by simp
  from inv have ca: "copies_accounted d" and ib: "issues_have_books d"
    by (simp_all add: library_inv_def)
  have le: "\<And>kb. outstanding (issues d2) kb \<le> outstanding (issues d) kb"
    using outstanding_update_le [OF ret] d2(2) by simp
  have less: "outstanding (issues d2) (issue_book_id j) < outstanding (issues d) (issue_book_id j)"
    using outstanding_update_less [OF ret jin jid j(2)] d2(2) by simp
  have "copies_accounted d2"
  proof (rule copies_accountedI)
    fix x assume "x \<in> set (books d2)"
    then consider "x = ?b'" | "x \<in> set (books d)" "book_id x \<noteq> Some (issue_book_id j)"
      using d2(1) by (auto simp: set_session_update)
    then show "available_copies x + lent d2 x \<le> total_copies x
                 \<and> min 0 (total_copies x) \<le> available_copies x"
    proof cases
      case 1
      then show ?thesis using copies_accountedD [OF ca bin] bid less
        by (simp add: lent_def)
    next
      case 2
      show ?thesis
      proof (cases "book_id x")
        case None
        then show ?thesis using copies_accountedD [OF ca 2(1)] by (simp add: lent_def)
      next
        case (Some kb)
        then show ?thesis using copies_accountedD [OF ca 2(1)] le [of kb] by (simp add: lent_def)
      qed
    qed
  qed
  moreover have "issues_have_books d2"
  proof -
    have keep: "\<And>k. session_get book_id (books d) k \<noteq> None \<Longrightarrow> session_get book_id (books d2) k \<noteq> None"
      using d2(1) bid session_get_update_None [of book_id ?b' "issue_book_id j" "books d"] by simp
    have "\<forall>x\<in>set (issues d2). session_get book_id (books d) (issue_book_id x) \<noteq> None"
      using issues_have_booksD [OF ib] d2(2) i2 jin by (auto simp: set_session_update)
    then show ?thesis using keep by (auto simp: issues_have_books_def list_all_iff)
  qed
  ultimately show ?thesis by (simp add: library_inv_def)
qed

lemma library_inv_frame:
  "books d' = books d \<Longrightarrow> issues d' = issues d \<Longrightarrow> library_inv d \<Longrightarrow> library_inv d'"
  by (simp add: library_inv_def copies_accounted_def issues_have_books_def lent_def
        cong: option.case_cong)

lemma library_inv_step:
  assumes "library_inv d"
  shows "library_inv (fst (handle today d rq))"
proof (cases rq)
  case (AddBook b)
  obtain d1 b1 where r: "add_book d b = Inr (d1, b1)" using add_book_total by blast
  then show ?thesis using library_inv_add_book [OF assms r] AddBook by (simp add: respond_fst)
next
  case (IssueBook i)
  show ?thesis
  proof (cases "issue_book d i")
    case (Inl e)
    then show ?thesis using assms IssueBook by (simp add: respond_fst)
  next
    case (Inr p)
    obtain d1 i1 where p: "p = (d1, i1)" by (cases p)
    from Inr p have "library_inv d1" using library_inv_issue_book [OF assms] by simp
    then show ?thesis using Inr p IssueBook by (simp add: respond_fst)
  qed
next
  case (ReturnBook k)
  show ?thesis
  proof (cases "return_book today d k")
    case (Inl e)
    then show ?thesis using assms ReturnBook by (simp add: respond_fst)
  next
    case (Inr p)
    obtain d2 i2 where p: "p = (d2, i2)" by (cases p)
    from Inr p have "library_inv d2" using library_inv_return_book [OF assms] by simp
    then show ?thesis using Inr p ReturnBook by (simp add: respond_fst)
  qed
qed (use assms handle_library_frame [of rq today d] library_inv_frame in \<open>blast+\<close>)

lemma library_inv_run: "library_inv d \<Longrightarrow> library_inv (run d rqs)"
proof (induction rqs arbitrary: d)
  case Nil
  then show ?case by simp
next
  case (Cons a rqs)
  obtain t rq where a: "a = (t, rq)" by (cases a)
  show ?case using Cons.IH [OF library_inv_step [OF Cons.prems, of t rq]] a by simp
qed

lemma lent_out_run:
  "run empty_db [(Date 2024 1 1, AddBook some_book), (Date 2024 1 2, IssueBook open_issue)] = lent_out"
  by (simp add: lent_out_def one_book_def)

lemma book_stays:
  assumes "session_get book_id (books d) kb \<noteq> None"
  shows "session_get book_id (books (fst (handle today d rq))) kb \<noteq> None"
proof (cases rq)
  case (AddBook b)
  obtain d1 b1 where r: "add_book d b = Inr (d1, b1)" using add_book_total by blast
  then have "books d1 = books d @ [b1]" by (auto simp: add_book_Inr)
  then show ?thesis using assms AddBook r
    by (auto simp: respond_fst session_get_append split: option.splits)
next
  case (IssueBook i)
  show ?thesis
  proof (cases "issue_book d i")
    case (Inl e)
    then show ?thesis using assms IssueBook by (simp add: respond_fst)
  next
    case (Inr p)
    obtain d1 i1 where p: "p = (d1, i1)" by (cases p)
    from Inr p obtain b where b: "session_get book_id (books d) (issue_book_id i) = Some b"
      and d1: "books d1 = session_update book_id (issue_book_id i)
                          (b\<lparr>available_copies := available_copies b - 1\<rparr>) (books d)"
      by (auto simp: issue_book_Inr)
    from session_get_Some [OF b] d1 assms
      session_get_update_None [of book_id "b\<lparr>available_copies := available_copies b - 1\<rparr>"
        "issue_book_id i" "books d" kb]
    have "session_get book_id (books d1) kb \<noteq> None" by simp
    then show ?thesis using IssueBook Inr p by (simp add: respond_fst)
  qed
next
  case (ReturnBook k)
  show ?thesis
  proof (cases "return_book today d k")
    case (Inl e)
    then show ?thesis using assms ReturnBook by (simp add: respond_fst)
  next
    case (Inr p)
    obtain d2 i2 where p: "p = (d2, i2)" by (cases p)
    from Inr p have "return_book today d k = Inr (d2, i2)" by simp
    then obtain j :: issue and b
      where b: "session_get book_id (books d) (issue_book_id j) = Some b"
      and dd: "d2 = d\<lparr>books := session_update book_id (issue_book_id j)
                          (b\<lparr>available_copies := available_copies b + 1\<rparr>) (books d),
                       issues := session_update issue_id k i2 (issues d)\<rparr>"
      unfolding return_book_Inr by blast
    from dd have d2: "books d2 = session_update book_id (issue_book_id j)
                          (b\<lparr>available_copies := available_copies b + 1\<rparr>) (books d)"
      by simp
    from session_get_Some [OF b] d2 assms
      session_get_update_None [of book_id "b\<lparr>available_copies := available_copies b + 1\<rparr>"
        "issue_book_id j" "books d" kb]
    have "session_get book_id (books d2) kb \<noteq> None" by simp
    then show ?thesis using ReturnBook Inr p by (simp add: respond_fst)
  qed
qed (use assms handle_library_frame [of rq today d] in simp_all)

lemma return_book_AttributeError:
  "return_book today d k = Inl AttributeError \<longleftrightarrow>
     (\<exists>i. session_get issue_id (issues d) k = Some i \<and> return_date i = None
         \<and> session_get book_id (books d) (issue_book_id i) = None)"
  unfolding return_book_def by (auto simp: Let_def split: option.splits)

lemma return_book_cases:
  "return_book today d k = Inl (HTTPException 400 ''Invalid return'')
   \<or> return_book today d k = Inl AttributeError
   \<or> (\<exists>d2 i2. return_book today d k = Inr (d2, i2))"
  unfolding return_book_def by (auto simp: Let_def split: option.splits)

lemma return_book_rejected:
  "return_book today d k = Inl (HTTPException 400 ''Invalid return'') \<longleftrightarrow>
     (\<forall>i. session_get issue_id (issues d) k = Some i \<longrightarrow> return_date i \<noteq> None)"
  unfolding return_book_def by (auto simp: Let_def split: option.splits)

lemma return_book_book:
  assumes "return_book today d k = Inr (d2, i2)"
  shows "\<exists>j b. session_get issue_id (issues d) k = Some j \<and> return_date j = None
           \<and> session_get book_id (books d) (issue_book_id j) = Some b
           \<and> session_get book_id (books d2) (issue_book_id j)
               = Some (b\<lparr>available_copies := available_copies b + 1\<rparr>)"
proof -
  from assms obtain j b where j: "session_get issue_id (issues d) k = Some j" "return_date j = None"
    and b: "session_get book_id (books d) (issue_book_id j) = Some b"
    and dd: "d2 = d\<lparr>books := session_update book_id (issue_book_id j)
                          (b\<lparr>available_copies := available_copies b + 1\<rparr>) (books d),
                     issues := session_update issue_id k i2 (issues d)\<rparr>"
    unfolding return_book_Inr by blast
  from session_get_Some [OF b]
  have "book_id (b\<lparr>available_copies := available_copies b + 1\<rparr>) = Some (issue_book_id j)"
    by simp
  from session_get_update_same [OF b this] dd
  have "session_get book_id (books d2) (issue_book_id j)
          = Some (b\<lparr>available_copies := available_copies b + 1\<rparr>)" by simp
  with j b show ?thesis by blast
qed

text \<open>
  C1, as amended. In every store reachable from the empty store by any sequence of
  requests, every book has \<open>available_copies \<le> total_copies\<close>, and \<open>0 \<le> available_copies\<close>
  whenever its \<open>total_copies\<close> is not negative. The handlers change the counter as
  follows: \<open>add_book\<close> always succeeds and sets \<open>available_copies\<close> to \<open>total_copies\<close>;
  \<open>issue_book\<close> succeeds only for a book with at least one copy available and takes one
  from it; \<open>return_book\<close> succeeds only for an issue with no return date and gives one
  copy back to its book.
\<close>

theorem available_copies_bounded:
  "(\<forall>b\<in>set (books (run empty_db rqs)).
      available_copies b \<le> total_copies b \<and> (0 \<le> total_copies b \<longrightarrow> 0 \<le> available_copies b))
   \<and> (\<exists>d1 b1. add_book d bb = Inr (d1, b1) \<and> available_copies b1 = total_copies bb)
   \<and> (\<forall>d1 i1. issue_book d i = Inr (d1, i1) \<longrightarrow>
        (\<exists>b. session_get book_id (books d) (issue_book_id i) = Some b \<and> 1 \<le> available_copies b
           \<and> session_get book_id (books d1) (issue_book_id i)
               = Some (b\<lparr>available_copies := available_copies b - 1\<rparr>)))
   \<and> (\<forall>d2 i2. return_book today d k = Inr (d2, i2) \<longrightarrow>
        (\<exists>j b. session_get issue_id (issues d) k = Some j \<and> return_date j = None
           \<and> session_get book_id (books d) (issue_book_id j) = Some b
           \<and> session_get book_id (books d2) (issue_book_id j)
               = Some (b\<lparr>available_copies := available_copies b + 1\<rparr>)))"
proof -
  have 1: "\<forall>b\<in>set (books (run empty_db rqs)).
      available_copies b \<le> total_copies b \<and> (0 \<le> total_copies b \<longrightarrow> 0 \<le> available_copies b)"
  proof
    fix b assume b: "b \<in> set (books (run empty_db rqs))"
    have "library_inv (run empty_db rqs)" using library_inv_empty by (rule library_inv_run)
    then have "copies_accounted (run empty_db rqs)" by (simp add: library_inv_def)
    from copies_accountedD [OF this b]
    have 1: "available_copies b + lent (run empty_db rqs) b \<le> total_copies b"
      and 2: "min 0 (total_copies b) \<le> available_copies b" by simp_all
    have "0 \<le> lent (run empty_db rqs) b" by (simp add: lent_def split: option.splits)
    with 1 2 show "available_copies b \<le> total_copies b \<and> (0 \<le> total_copies b \<longrightarrow> 0 \<le> available_copies b)"
      by auto
  qed
  have 2: "\<exists>d1 b1. add_book d bb = Inr (d1, b1) \<and> available_copies b1 = total_copies bb"
    by (simp add: add_book_Inr)
  have 3: "\<forall>d1 i1. issue_book d i = Inr (d1, i1) \<longrightarrow>
        (\<exists>b. session_get book_id (books d) (issue_book_id i) = Some b \<and> 1 \<le> available_copies b
           \<and> session_get book_id (books d1) (issue_book_id i)
               = Some (b\<lparr>available_copies := available_copies b - 1\<rparr>))"
  proof (intro allI impI)
    fix d1 i1 assume ib: "issue_book d i = Inr (d1, i1)"
    then obtain b where b: "session_get book_id (books d) (issue_book_id i) = Some b"
      and av: "1 \<le> available_copies b" unfolding issue_book_Inr by blast
    from issue_book_book [OF ib b] b av
    show "\<exists>b. session_get book_id (books d) (issue_book_id i) = Some b \<and> 1 \<le> available_copies b
           \<and> session_get book_id (books d1) (issue_book_id i)
               = Some (b\<lparr>available_copies := available_copies b - 1\<rparr>)" by blast
  qed
  have 4: "\<forall>d2 i2. return_book today d k = Inr (d2, i2) \<longrightarrow>
        (\<exists>j b. session_get issue_id (issues d) k = Some j \<and> return_date j = None
           \<and> session_get book_id (books d) (issue_book_id j) = Some b
           \<and> session_get book_id (books d2) (issue_book_id j)
               = Some (b\<lparr>available_copies := available_copies b + 1\<rparr>))"
    using return_book_book by blast
  from 1 2 3 4 show ?thesis by blast
qed

theorem available_copies_bounded_witness:
  "\<lparr>title = ''T'', author = ''A'', isbn = ''I'', total_copies = 1, book_id = Some 1,
     available_copies = 0\<rparr>
     \<in> set (books (run empty_db [(Date 2024 1 1, AddBook some_book),
                                  (Date 2024 1 2, IssueBook open_issue)]))
   \<and> available_copies \<lparr>title = ''T'', author = ''A'', isbn = ''I'', total_copies = 1,
        book_id = Some 1, available_copies = 0\<rparr>
       \<le> total_copies \<lparr>title = ''T'', author = ''A'', isbn = ''I'', total_copies = 1,
        book_id = Some 1, available_copies = 0\<rparr>
   \<and> 0 \<le> total_copies \<lparr>title = ''T'', author = ''A'', isbn = ''I'', total_copies = 1,
        book_id = Some 1, available_copies = 0\<rparr>
   \<and> 0 \<le> available_copies \<lparr>title = ''T'', author = ''A'', isbn = ''I'', total_copies = 1,
        book_id = Some 1, available_copies = 0\<rparr>"
proof -
  have mem: "\<lparr>title = ''T'', author = ''A'', isbn = ''I'', total_copies = 1, book_id = Some 1,
     available_copies = 0\<rparr>
     \<in> set (books (run empty_db [(Date 2024 1 1, AddBook some_book),
                                  (Date 2024 1 2, IssueBook open_issue)]))"
    unfolding lent_out_run by (simp add: lent_out_eq)
  have tot: "0 \<le> total_copies \<lparr>title = ''T'', author = ''A'', isbn = ''I'', total_copies = 1,
        book_id = Some 1, available_copies = 0\<rparr>" by simp
  from bspec [OF conjunct1 [OF available_copies_bounded] mem] mem tot show ?thesis by blast
qed

text \<open>
  The lower bound of the claim as it is written fails: \<open>add_book\<close> takes any integer as
  \<open>total_copies\<close> and copies it into \<open>available_copies\<close>. One request on the empty store
  gives a book with \<open>available_copies = -1\<close>.
\<close>

theorem available_copies_negative_counterexample:
  "books (run empty_db [(Date 2024 1 1, AddBook debt_book)])
     = [\<lparr>title = ''T'', author = ''A'', isbn = ''I'', total_copies = - 1, book_id = Some 1,
          available_copies = - 1\<rparr>]
   \<and> \<not> 0 \<le> available_copies \<lparr>title = ''T'', author = ''A'', isbn = ''I'', total_copies = - 1,
          book_id = Some 1, available_copies = - 1\<rparr>"
  by (simp add: debt_book_def handler_defs)

subsection \<open>The unguarded lookup in \<open>return_book\<close>\<close>

lemma reachable_issues_have_books:
  "\<forall>i\<in>set (issues (run empty_db rqs)).
     session_get book_id (books (run empty_db rqs)) (issue_book_id i) \<noteq> None"
proof -
  have "library_inv (run empty_db rqs)" using library_inv_empty by (rule library_inv_run)
  then have "issues_have_books (run empty_db rqs)" by (simp add: library_inv_def)
  from issues_have_booksD [OF this] show ?thesis by blast
qed

lemma reachable_return_book: "return_book today (run empty_db rqs) k \<noteq> Inl AttributeError"
proof
  assume "return_book today (run empty_db rqs) k = Inl AttributeError"
  then obtain i where i: "session_get issue_id (issues (run empty_db rqs)) k = Some i"
    and n: "session_get book_id (books (run empty_db rqs)) (issue_book_id i) = None"
    unfolding return_book_AttributeError by blast
  from session_get_Some [OF i] reachable_issues_have_books [of rqs] n show False by blast
qed

text \<open>
  C10. \<open>return_book\<close> reads the book of the issue without a test for \<open>None\<close>: in a store
  where an open issue names a book that is missing, it ends with \<open>AttributeError\<close>. No
  request removes a book, and in every store reachable from the empty store the
  \<open>book_id\<close> of every issue is the key of a book, so \<open>return_book\<close> never ends with
  \<open>AttributeError\<close> there.
\<close>

theorem return_book_book_exists:
  "(return_book today d k = Inl AttributeError \<longleftrightarrow>
      (\<exists>i. session_get issue_id (issues d) k = Some i \<and> return_date i = None
          \<and> session_get book_id (books d) (issue_book_id i) = None))
   \<and> (session_get book_id (books d) kb \<noteq> None \<longrightarrow>
        session_get book_id (books (fst (handle today d rq))) kb \<noteq> None)
   \<and> (\<forall>i\<in>set (issues (run empty_db rqs)).
        session_get book_id (books (run empty_db rqs)) (issue_book_id i) \<noteq> None)
   \<and> return_book today (run empty_db rqs) k \<noteq> Inl AttributeError"
  using return_book_AttributeError [of today d k] book_stays [of d kb today rq]
    reachable_issues_have_books [of rqs] reachable_return_book [of today rqs k]
  by blast

theorem return_book_book_exists_witness:
  "\<lparr>issue_id = Some 1, issue_student_id = 7, issue_book_id = 1,
     issue_date = Date 2024 1 2, return_date = None\<rparr>
     \<in> set (issues (run empty_db [(Date 2024 1 1, AddBook some_book),
                                   (Date 2024 1 2, IssueBook open_issue)]))
   \<and> session_get book_id (books (run empty_db [(Date 2024 1 1, AddBook some_book),
                                   (Date 2024 1 2, IssueBook open_issue)])) 1 \<noteq> None
   \<and> return_book (Date 2024 1 3) (run empty_db [(Date 2024 1 1, AddBook some_book),
                                   (Date 2024 1 2, IssueBook open_issue)]) 1 \<noteq> Inl AttributeError"
proof -
  let ?d = "run empty_db [(Date 2024 1 1, AddBook some_book), (Date 2024 1 2, IssueBook open_issue)]"
  let ?i = "\<lparr>issue_id = Some 1, issue_student_id = 7, issue_book_id = 1,
     issue_date = Date 2024 1 2, return_date = None\<rparr>"
  have mem: "?i \<in> set (issues ?d)"
    unfolding lent_out_run by (simp add: lent_out_eq)
  from return_book_book_exists [of "Date 2024 1 3" empty_db 1 1 ListBooks _]
  have a: "\<forall>i\<in>set (issues ?d). session_get book_id (books ?d) (issue_book_id i) \<noteq> None"
    and b: "return_book (Date 2024 1 3) ?d 1 \<noteq> Inl AttributeError"
    by blast+
  from bspec [OF a mem] have "session_get book_id (books ?d) 1 \<noteq> None" by simp
  with mem b show ?thesis by blast
qed

subsection \<open>Returning an issue\<close>

text \<open>
  C4. In every store reachable from the empty store and for every issue identifier,
  \<open>return_book\<close> succeeds exactly when an issue with that identifier exists and its
  \<open>return_date\<close> is null. On success the returned issue is the stored one with
  \<open>return_date\<close> set to the current date, it is what the store then holds under that
  identifier, the book it names has one more available copy than before, and from then
  on, whatever requests follow, \<open>return_book\<close> on that identifier raises the HTTP error
  400 "Invalid return": an issue is returned at most once. An identifier with no issue,
  or with an issue that has a return date, is refused with the same error.
\<close>

theorem return_book_once:
  assumes "d = run empty_db rqs"
  shows "((\<exists>d2 i2. return_book today d k = Inr (d2, i2)) \<longleftrightarrow>
            (\<exists>i. session_get issue_id (issues d) k = Some i \<and> return_date i = None))
       \<and> (\<forall>d2 i2. return_book today d k = Inr (d2, i2) \<longrightarrow>
            (\<exists>i b. session_get issue_id (issues d) k = Some i
                \<and> session_get book_id (books d) (issue_book_id i) = Some b
                \<and> i2 = i\<lparr>return_date := Some today\<rparr>
                \<and> session_get issue_id (issues d2) k = Some i2
                \<and> session_get book_id (books d2) (issue_book_id i)
                    = Some (b\<lparr>available_copies := available_copies b + 1\<rparr>)
                \<and> (\<forall>rqs' t. return_book t (run d2 rqs') k
                      = Inl (HTTPException 400 ''Invalid return''))))
       \<and> ((\<forall>i. session_get issue_id (issues d) k = Some i \<longrightarrow> return_date i \<noteq> None) \<longrightarrow>
            return_book today d k = Inl (HTTPException 400 ''Invalid return''))"
proof -
  have noattr: "return_book today d k \<noteq> Inl AttributeError"
    using reachable_return_book [of today rqs k] assms by simp
  have 1: "(\<exists>d2 i2. return_book today d k = Inr (d2, i2)) \<longleftrightarrow>
            (\<exists>i. session_get issue_id (issues d) k = Some i \<and> return_date i = None)"
  proof
    assume "\<exists>d2 i2. return_book today d k = Inr (d2, i2)"
    then show "\<exists>i. session_get issue_id (issues d) k = Some i \<and> return_date i = None"
      unfolding return_book_Inr by blast
  next
    assume "\<exists>i. session_get issue_id (issues d) k = Some i \<and> return_date i = None"
    then have "return_book today d k \<noteq> Inl (HTTPException 400 ''Invalid return'')"
      unfolding return_book_rejected by blast
    with noattr return_book_cases [of today d k]
    show "\<exists>d2 i2. return_book today d k = Inr (d2, i2)" by blast
  qed
  have 2: "\<forall>d2 i2. return_book today d k = Inr (d2, i2) \<longrightarrow>
            (\<exists>i b. session_get issue_id (issues d) k = Some i
                \<and> session_get book_id (books d) (issue_book_id i) = Some b
                \<and> i2 = i\<lparr>return_date := Some today\<rparr>
                \<and> session_get issue_id (issues d2) k = Some i2
                \<and> session_get book_id (books d2) (issue_book_id i)
                    = Some (b\<lparr>available_copies := available_copies b + 1\<rparr>)
                \<and> (\<forall>rqs' t. return_book t (run d2 rqs') k
                      = Inl (HTTPException 400 ''Invalid return'')))"
  proof (intro allI impI)
    fix d2 i2 assume rb: "return_book today d k = Inr (d2, i2)"
    then obtain i b where i: "session_get issue_id (issues d) k = Some i"
      and b: "session_get book_id (books d) (issue_book_id i) = Some b"
      and i2: "i2 = i\<lparr>return_date := Some today\<rparr>"
      and dd: "d2 = d\<lparr>books := session_update book_id (issue_book_id i)
                          (b\<lparr>available_copies := available_copies b + 1\<rparr>) (books d),
                       issues := session_update issue_id k i2 (issues d)\<rparr>"
      unfolding return_book_Inr by blast
    from session_get_Some [OF i] i2 have "issue_id i2 = Some k" by simp
    from session_get_update_same [OF i this] dd
    have g2: "session_get issue_id (issues d2) k = Some i2" by simp
    from session_get_Some [OF b]
    have "book_id (b\<lparr>available_copies := available_copies b + 1\<rparr>) = Some (issue_book_id i)"
      by simp
    from session_get_update_same [OF b this] dd
    have b2: "session_get book_id (books d2) (issue_book_id i)
                = Some (b\<lparr>available_copies := available_copies b + 1\<rparr>)" by simp
    from i2 have ret: "return_date i2 \<noteq> None" by simp
    have "\<forall>rqs' t. return_book t (run d2 rqs') k = Inl (HTTPException 400 ''Invalid return'')"
      using return_book_returned [OF returned_run [OF g2 ret] ret] by blast
    with i b i2 g2 b2
    show "\<exists>i b. session_get issue_id (issues d) k = Some i
                \<and> session_get book_id (books d) (issue_book_id i) = Some b
                \<and> i2 = i\<lparr>return_date := Some today\<rparr>
                \<and> session_get issue_id (issues d2) k = Some i2
                \<and> session_get book_id (books d2) (issue_book_id i)
                    = Some (b\<lparr>available_copies := available_copies b + 1\<rparr>)
                \<and> (\<forall>rqs' t. return_book t (run d2 rqs') k
                      = Inl (HTTPException 400 ''Invalid return''))" by blast
  qed
  have 3: "(\<forall>i. session_get issue_id (issues d) k = Some i \<longrightarrow> return_date i \<noteq> None) \<longrightarrow>
            return_book today d k = Inl (HTTPException 400 ''Invalid return'')"
    unfolding return_book_rejected by blast
  from 1 2 3 show ?thesis by blast
qed

theorem return_book_once_witness:
  "session_get issue_id (issues lent_out) 1
     = Some \<lparr>issue_id = Some 1, issue_student_id = 7, issue_book_id = 1,
             issue_date = Date 2024 1 2, return_date = None\<rparr>
   \<and> (\<exists>d2 i2. return_book (Date 2024 1 9) lent_out 1 = Inr (d2, i2)
        \<and> return_date i2 = Some (Date 2024 1 9)
        \<and> session_get book_id (books d2) 1
            = Some \<lparr>title = ''T'', author = ''A'', isbn = ''I'', total_copies = 1,
                    book_id = Some 1, available_copies = 1\<rparr>
        \<and> return_book (Date 2024 1 10) d2 1 = Inl (HTTPException 400 ''Invalid return''))
   \<and> return_book (Date 2024 1 9) lent_out 2 = Inl (HTTPException 400 ''Invalid return'')"
proof -
  have h: "lent_out = run empty_db [(Date 2024 1 1, AddBook some_book),
                                    (Date 2024 1 2, IssueBook open_issue)]"
    by (rule lent_out_run [symmetric])
  have g: "session_get issue_id (issues lent_out) 1
     = Some \<lparr>issue_id = Some 1, issue_student_id = 7, issue_book_id = 1,
             issue_date = Date 2024 1 2, return_date = None\<rparr>"
    by (simp add: lent_out_eq session_get_def empty_db_def)
  have gb: "session_get book_id (books lent_out) 1
     = Some \<lparr>title = ''T'', author = ''A'', isbn = ''I'', total_copies = 1,
                    book_id = Some 1, available_copies = 0\<rparr>"
    by (simp add: lent_out_eq session_get_def empty_db_def)
  have n: "\<forall>i. session_get issue_id (issues lent_out) 2 = Some i \<longrightarrow> return_date i \<noteq> None"
    by (simp add: lent_out_eq session_get_def empty_db_def)
  note T = return_book_once [OF h, of "Date 2024 1 9" 1]
  have ex: "\<exists>i. session_get issue_id (issues lent_out) 1 = Some i \<and> return_date i = None"
    using g by simp
  from T ex obtain d2 i2 where rb: "return_book (Date 2024 1 9) lent_out 1 = Inr (d2, i2)"
    by blast
  from T rb obtain i b where i: "session_get issue_id (issues lent_out) 1 = Some i"
    and b: "session_get book_id (books lent_out) (issue_book_id i) = Some b"
    and i2: "i2 = i\<lparr>return_date := Some (Date 2024 1 9)\<rparr>"
    and b2: "session_get book_id (books d2) (issue_book_id i)
               = Some (b\<lparr>available_copies := available_copies b + 1\<rparr>)"
    and never: "\<forall>rqs' t. return_book t (run d2 rqs') 1 = Inl (HTTPException 400 ''Invalid return'')"
    by blast
  from i g have ieq: "i = \<lparr>issue_id = Some 1, issue_student_id = 7, issue_book_id = 1,
             issue_date = Date 2024 1 2, return_date = None\<rparr>" by simp
  with b gb have beq: "b = \<lparr>title = ''T'', author = ''A'', isbn = ''I'', total_copies = 1,
                    book_id = Some 1, available_copies = 0\<rparr>" by simp
  from never have again: "return_book (Date 2024 1 10) (run d2 []) 1
      = Inl (HTTPException 400 ''Invalid return'')" by blast
  from return_book_once [OF h, of "Date 2024 1 9" 2] n
  have other: "return_book (Date 2024 1 9) lent_out 2 = Inl (HTTPException 400 ''Invalid return'')"
    by blast
  from rb i2 b2 ieq beq again other g show ?thesis by simp
qed

subsection \<open>Create, then fetch\<close>

lemma session_add_Inr:
  assumes "session_add key set_key rows r = Inr (rows', r')"
    and "\<And>v x. key (set_key v x) = v"
  shows "\<exists>k. key r' = Some k \<and> session_get key rows k = None \<and> rows' = rows @ [r']
           \<and> session_get key rows' k = Some r'
           \<and> (r' = r \<or> r' = set_key (Some k) r)"
proof (cases "key r")
  case None
  let ?k = "next_rowid (primary_keys key rows)"
  from None assms(1) have r': "r' = set_key (Some ?k) r" and rows': "rows' = rows @ [r']"
    by (auto simp: session_add_def Let_def)
  from r' assms(2) have k: "key r' = Some ?k" by simp
  have fresh: "session_get key rows ?k = None" by (rule next_rowid_get)
  with k rows' have "session_get key rows' ?k = Some r'" by (simp add: session_get_append)
  with k fresh rows' r' show ?thesis by blast
next
  case (Some k)
  with assms(1) have fresh: "session_get key rows k = None" and r': "r' = r"
    and rows': "rows' = rows @ [r']"
    by (auto simp: session_add_def primary_keys_get split: if_splits)
  from Some r' have k: "key r' = Some k" by simp
  with fresh rows' have "session_get key rows' k = Some r'" by (simp add: session_get_append)
  with k fresh rows' r' show ?thesis by blast
qed

lemma session_add_None:
  "key r = None \<Longrightarrow>
   session_add key set_key rows r
     = Inr (rows @ [set_key (Some (next_rowid (primary_keys key rows))) r],
            set_key (Some (next_rowid (primary_keys key rows))) r)"
  by (simp add: session_add_def Let_def)

lemma create_student_fetch:
  "\<exists>d1 s k. create_student d b = Inr (d1, s) \<and> student_id s = Some k
     \<and> student_name s = student_name b
     \<and> student_contact_number s = student_contact_number b
     \<and> student_dob s = student_dob b
     \<and> get_student d1 k = Inr (d1, s)"
proof -
  let ?o = "\<lparr>student_name = student_name b, student_contact_number = student_contact_number b,
             student_dob = student_dob b, student_id = None\<rparr>"
  let ?k = "next_rowid (primary_keys student_id (students d))"
  let ?s = "?o\<lparr>student_id := Some ?k\<rparr>"
  have a: "session_add student_id (\<lambda>v r. r\<lparr>student_id := v\<rparr>) (students d) ?o
             = Inr (students d @ [?s], ?s)"
    by (rule session_add_None) simp
  then have c: "create_student d b = Inr (d\<lparr>students := students d @ [?s]\<rparr>, ?s)"
    by (simp add: create_student_def)
  from session_add_Inr [OF a] have "session_get student_id (students d @ [?s]) ?k = Some ?s"
    by auto
  then have "get_student (d\<lparr>students := students d @ [?s]\<rparr>) ?k
               = Inr (d\<lparr>students := students d @ [?s]\<rparr>, ?s)"
    by (simp add: get_student_def)
  with c show ?thesis by auto
qed

lemma create_staff_fetch:
  "\<exists>d1 s k. create_staff d b = Inr (d1, s) \<and> staff_id s = Some k
     \<and> staff_name s = staff_name b
     \<and> staff_contact_number s = staff_contact_number b
     \<and> staff_dob s = staff_dob b
     \<and> get_staff d1 k = Inr (d1, s)"
proof -
  let ?o = "\<lparr>staff_name = staff_name b, staff_contact_number = staff_contact_number b,
             staff_dob = staff_dob b, staff_id = None\<rparr>"
  let ?k = "next_rowid (primary_keys staff_id (staff_members d))"
  let ?s = "?o\<lparr>staff_id := Some ?k\<rparr>"
  have a: "session_add staff_id (\<lambda>v r. r\<lparr>staff_id := v\<rparr>) (staff_members d) ?o
             = Inr (staff_members d @ [?s], ?s)"
    by (rule session_add_None) simp
  then have c: "create_staff d b = Inr (d\<lparr>staff_members := staff_members d @ [?s]\<rparr>, ?s)"
    by (simp add: create_staff_def)
  from session_add_Inr [OF a] have "session_get staff_id (staff_members d @ [?s]) ?k = Some ?s"
    by auto
  then have "get_staff (d\<lparr>staff_members := staff_members d @ [?s]\<rparr>) ?k
               = Inr (d\<lparr>staff_members := staff_members d @ [?s]\<rparr>, ?s)"
    by (simp add: get_staff_def)
  with c show ?thesis by auto
qed

lemma add_book_fetch:
  "\<exists>d1 s k. add_book d b = Inr (d1, s) \<and> book_id s = Some k
     \<and> title s = title b \<and> author s = author b \<and> isbn s = isbn b
     \<and> total_copies s = total_copies b \<and> available_copies s = total_copies b
     \<and> get_book d1 k = Inr (d1, s)"
proof -
  let ?k = "next_rowid (primary_keys book_id (books d))"
  let ?s = "\<lparr>title = title b, author = author b, isbn = isbn b, total_copies = total_copies b,
             book_id = Some ?k, available_copies = total_copies b\<rparr>"
  have c: "add_book d b = Inr (d\<lparr>books := books d @ [?s]\<rparr>, ?s)"
    by (simp add: add_book_Inr)
  have "session_get book_id (books d @ [?s]) ?k = Some ?s"
    by (simp add: session_get_append next_rowid_get)
  then have "get_book (d\<lparr>books := books d @ [?s]\<rparr>) ?k = Inr (d\<lparr>books := books d @ [?s]\<rparr>, ?s)"
    by (simp add: get_book_def)
  with c show ?thesis by auto
qed

lemma add_result_fetch:
  assumes "add_result d r = Inr (d1, r1)"
  shows "\<exists>k. result_id r1 = Some k \<and> result_student_id r1 = result_student_id r
     \<and> exam_name r1 = exam_name r \<and> marks_obtained r1 = marks_obtained r
     \<and> max_marks r1 = max_marks r \<and> get_result d1 k = Inr (d1, r1)"
proof -
  from assms obtain rows where a: "session_add result_id (\<lambda>v x. x\<lparr>result_id := v\<rparr>) (exam_results d) r
      = Inr (rows, r1)" and d1: "d1 = d\<lparr>exam_results := rows\<rparr>"
    by (auto simp: add_result_def split: sum.splits)
  from session_add_Inr [OF a] obtain k where k: "result_id r1 = Some k"
    and g: "session_get result_id rows k = Some r1"
    and e: "r1 = r \<or> r1 = r\<lparr>result_id := Some k\<rparr>" by auto
  from g d1 have "get_result d1 k = Inr (d1, r1)" by (simp add: get_result_def)
  with k e show ?thesis by auto
qed

lemma add_fee_fetch:
  assumes "add_fee d f = Inr (d1, f1)"
  shows "\<exists>k. fee_id f1 = Some k \<and> fee_student_id f1 = fee_student_id f
     \<and> amount f1 = amount f \<and> due_date f1 = due_date f \<and> paid f1 = paid f
     \<and> get_fee d1 k = Inr (d1, f1)"
proof -
  from assms obtain rows where a: "session_add fee_id (\<lambda>v x. x\<lparr>fee_id := v\<rparr>) (exam_fees d) f
      = Inr (rows, f1)" and d1: "d1 = d\<lparr>exam_fees := rows\<rparr>"
    by (auto simp: add_fee_def split: sum.splits)
  from session_add_Inr [OF a] obtain k where k: "fee_id f1 = Some k"
    and g: "session_get fee_id rows k = Some f1"
    and e: "f1 = f \<or> f1 = f\<lparr>fee_id := Some k\<rparr>" by auto
  from g d1 have "get_fee d1 k = Inr (d1, f1)" by (simp add: get_fee_def)
  with k e show ?thesis by auto
qed

lemma add_result_null_id:
  "result_id r = None \<Longrightarrow> \<exists>d1 r1. add_result d r = Inr (d1, r1)"
  by (simp add: add_result_def session_add_None)

lemma add_fee_null_id:
  "fee_id f = None \<Longrightarrow> \<exists>d1 f1. add_fee d f = Inr (d1, f1)"
  by (simp add: add_fee_def session_add_None)

lemma session_get_filter:
  "session_get key rows k = Some r \<Longrightarrow> P r \<Longrightarrow> session_get key (filter P rows) k = Some r"
  unfolding session_get_def by (induction rows) (auto split: if_splits)

lemma create_classroom_fetch:
  "\<exists>d1 c k. create_classroom d b = Inr (d1, c) \<and> classroom_id c = Some k
     \<and> class_name c = class_name b \<and> std c = std b \<and> sec c = sec b
     \<and> class_teacher c = class_teacher b
     \<and> (\<exists>rows. list_classrooms d1 = Inr (d1, rows) \<and> session_get classroom_id rows k = Some c)"
proof -
  let ?o = "\<lparr>class_name = class_name b, std = std b, sec = sec b,
             class_teacher = class_teacher b, classroom_id = None\<rparr>"
  let ?k = "next_rowid (primary_keys classroom_id (classrooms d))"
  let ?c = "?o\<lparr>classroom_id := Some ?k\<rparr>"
  have a: "session_add classroom_id (\<lambda>v r. r\<lparr>classroom_id := v\<rparr>) (classrooms d) ?o
             = Inr (classrooms d @ [?c], ?c)"
    by (rule session_add_None) simp
  then have c: "create_classroom d b = Inr (d\<lparr>classrooms := classrooms d @ [?c]\<rparr>, ?c)"
    by (simp add: create_classroom_def)
  from session_add_Inr [OF a] have "session_get classroom_id (classrooms d @ [?c]) ?k = Some ?c"
    by auto
  then have "\<exists>rows. list_classrooms (d\<lparr>classrooms := classrooms d @ [?c]\<rparr>)
                 = Inr (d\<lparr>classrooms := classrooms d @ [?c]\<rparr>, rows)
               \<and> session_get classroom_id rows ?k = Some ?c"
    by (simp add: list_classrooms_def)
  with c show ?thesis by auto
qed

lemma issue_book_fetch:
  assumes "issue_book d i = Inr (d1, i1)"
  shows "\<exists>k. issue_id i1 = Some k \<and> issue_student_id i1 = issue_student_id i
     \<and> issue_book_id i1 = issue_book_id i \<and> issue_date i1 = issue_date i
     \<and> return_date i1 = return_date i
     \<and> (\<exists>rows. student_issues d1 (issue_student_id i) = Inr (d1, rows)
           \<and> session_get issue_id rows k = Some i1)"
proof -
  from issue_book_created [OF assms] obtain k where k: "issue_id i1 = Some k"
    and g: "session_get issue_id (issues d1) k = Some i1"
    and e: "issue_student_id i1 = issue_student_id i" "issue_book_id i1 = issue_book_id i"
       "issue_date i1 = issue_date i" "return_date i1 = return_date i"
    by blast
  have "session_get issue_id (filter (\<lambda>j. issue_student_id j = issue_student_id i) (issues d1)) k
          = Some i1"
    using g e(1) by (rule session_get_filter)
  then have "\<exists>rows. student_issues d1 (issue_student_id i) = Inr (d1, rows)
           \<and> session_get issue_id rows k = Some i1"
    by (simp add: student_issues_def)
  with k e show ?thesis by blast
qed

lemma issue_book_null_id:
  "session_get book_id (books d) (issue_book_id i) = Some b \<Longrightarrow> 1 \<le> available_copies b \<Longrightarrow>
   issue_id i = None \<Longrightarrow> \<exists>d1 i1. issue_book d i = Inr (d1, i1)"
  by (rule issue_book_succeeds) simp_all

text \<open>
  C8. Every create handler, when it succeeds, returns a record with a non-null identifier
  and the field values of the request, and a fetch by that identifier on the resulting
  store gives the same record back. \<open>create_student\<close>, \<open>create_staff\<close>, \<open>add_book\<close> and
  \<open>create_classroom\<close> always succeed; \<open>add_result\<close> and \<open>add_fee\<close> succeed when the body has a
  null identifier, \<open>issue_book\<close> when moreover the book has a copy. The fetch is the get
  handler of the resource for students, staff, books, results and fees; classrooms and
  issues have no get handler, and are fetched by their identifier from what
  \<open>list_classrooms\<close> and \<open>student_issues\<close> return.
\<close>

theorem created_then_fetched:
  "(\<exists>d1 s k. create_student d sb = Inr (d1, s) \<and> student_id s = Some k
       \<and> student_name s = student_name sb
       \<and> student_contact_number s = student_contact_number sb
       \<and> student_dob s = student_dob sb
       \<and> get_student d1 k = Inr (d1, s))
   \<and> (\<exists>d1 s k. create_staff d tb = Inr (d1, s) \<and> staff_id s = Some k
       \<and> staff_name s = staff_name tb
       \<and> staff_contact_number s = staff_contact_number tb
       \<and> staff_dob s = staff_dob tb
       \<and> get_staff d1 k = Inr (d1, s))
   \<and> (\<exists>d1 s k. add_book d bb = Inr (d1, s) \<and> book_id s = Some k
       \<and> title s = title bb \<and> author s = author bb \<and> isbn s = isbn bb
       \<and> total_copies s = total_copies bb \<and> available_copies s = total_copies bb
       \<and> get_book d1 k = Inr (d1, s))
   \<and> (\<forall>d1 r1. add_result d r = Inr (d1, r1) \<longrightarrow>
        (\<exists>k. result_id r1 = Some k \<and> result_student_id r1 = result_student_id r
           \<and> exam_name r1 = exam_name r \<and> marks_obtained r1 = marks_obtained r
           \<and> max_marks r1 = max_marks r \<and> get_result d1 k = Inr (d1, r1)))
   \<and> (\<forall>d1 f1. add_fee d f = Inr (d1, f1) \<longrightarrow>
        (\<exists>k. fee_id f1 = Some k \<and> fee_student_id f1 = fee_student_id f
           \<and> amount f1 = amount f \<and> due_date f1 = due_date f \<and> paid f1 = paid f
           \<and> get_fee d1 k = Inr (d1, f1)))
   \<and> (result_id r = None \<longrightarrow> (\<exists>d1 r1. add_result d r = Inr (d1, r1)))
   \<and> (fee_id f = None \<longrightarrow> (\<exists>d1 f1. add_fee d f = Inr (d1, f1)))
   \<and> (\<exists>d1 c k. create_classroom d cb = Inr (d1, c) \<and> classroom_id c = Some k
       \<and> class_name c = class_name cb \<and> std c = std cb \<and> sec c = sec cb
       \<and> class_teacher c = class_teacher cb
       \<and> (\<exists>rows. list_classrooms d1 = Inr (d1, rows)
             \<and> session_get classroom_id rows k = Some c))
   \<and> (\<forall>d1 i1. issue_book d i = Inr (d1, i1) \<longrightarrow>
        (\<exists>k. issue_id i1 = Some k \<and> issue_student_id i1 = issue_student_id i
           \<and> issue_book_id i1 = issue_book_id i \<and> issue_date i1 = issue_date i
           \<and> return_date i1 = return_date i
           \<and> (\<exists>rows. student_issues d1 (issue_student_id i) = Inr (d1, rows)
                 \<and> session_get issue_id rows k = Some i1)))
   \<and> (\<forall>b. session_get book_id (books d) (issue_book_id i) = Some b \<and> 1 \<le> available_copies b
            \<and> issue_id i = None \<longrightarrow> (\<exists>d1 i1. issue_book d i = Inr (d1, i1)))"
proof -
  note A = create_student_fetch [of d sb] create_staff_fetch [of d tb] add_book_fetch [of d bb]
  have B: "\<forall>d1 r1. add_result d r = Inr (d1, r1) \<longrightarrow>
        (\<exists>k. result_id r1 = Some k \<and> result_student_id r1 = result_student_id r
           \<and> exam_name r1 = exam_name r \<and> marks_obtained r1 = marks_obtained r
           \<and> max_marks r1 = max_marks r \<and> get_result d1 k = Inr (d1, r1))"
    using add_result_fetch [of d r] by blast
  have C: "\<forall>d1 f1. add_fee d f = Inr (d1, f1) \<longrightarrow>
        (\<exists>k. fee_id f1 = Some k \<and> fee_student_id f1 = fee_student_id f
           \<and> amount f1 = amount f \<and> due_date f1 = due_date f \<and> paid f1 = paid f
           \<and> get_fee d1 k = Inr (d1, f1))"
    using add_fee_fetch [of d f] by blast
  have D: "result_id r = None \<longrightarrow> (\<exists>d1 r1. add_result d r = Inr (d1, r1))"
    "fee_id f = None \<longrightarrow> (\<exists>d1 f1. add_fee d f = Inr (d1, f1))"
    using add_result_null_id [of r d] add_fee_null_id [of f d] by blast+
  note E = create_classroom_fetch [of d cb]
  have F: "\<forall>d1 i1. issue_book d i = Inr (d1, i1) \<longrightarrow>
        (\<exists>k. issue_id i1 = Some k \<and> issue_student_id i1 = issue_student_id i
           \<and> issue_book_id i1 = issue_book_id i \<and> issue_date i1 = issue_date i
           \<and> return_date i1 = return_date i
           \<and> (\<exists>rows. student_issues d1 (issue_student_id i) = Inr (d1, rows)
                 \<and> session_get issue_id rows k = Some i1))"
    using issue_book_fetch [of d i] by blast
  have G: "\<forall>b. session_get book_id (books d) (issue_book_id i) = Some b \<and> 1 \<le> available_copies b
            \<and> issue_id i = None \<longrightarrow> (\<exists>d1 i1. issue_book d i = Inr (d1, i1))"
    using issue_book_null_id [of d i] by blast
  show ?thesis
    by (intro conjI A B C D E F G)
qed

theorem created_then_fetched_witness:
  "(\<exists>d1 s k. create_student empty_db some_student = Inr (d1, s) \<and> student_id s = Some k
       \<and> student_name s = ''S'' \<and> student_contact_number s = ''0''
       \<and> student_dob s = Date 2010 1 1
       \<and> get_student d1 k = Inr (d1, s))
   \<and> fee_id some_fee = None
   \<and> (\<exists>d1 f1 k. add_fee empty_db some_fee = Inr (d1, f1) \<and> fee_id f1 = Some k
       \<and> amount f1 = 10 \<and> due_date f1 = Date 2024 6 1 \<and> paid f1 = False
       \<and> get_fee d1 k = Inr (d1, f1))
   \<and> (\<exists>d1 c k. create_classroom empty_db some_class = Inr (d1, c) \<and> classroom_id c = Some k
       \<and> class_name c = ''C'' \<and> std c = ''5'' \<and> sec c = ''A'' \<and> class_teacher c = ''M''
       \<and> (\<exists>rows. list_classrooms d1 = Inr (d1, rows)
             \<and> session_get classroom_id rows k = Some c))
   \<and> (\<exists>d1 i1 k. issue_book one_book open_issue = Inr (d1, i1) \<and> issue_id i1 = Some k
       \<and> issue_student_id i1 = 7 \<and> issue_book_id i1 = 1 \<and> issue_date i1 = Date 2024 1 2
       \<and> return_date i1 = None
       \<and> (\<exists>rows. student_issues d1 7 = Inr (d1, rows)
             \<and> session_get issue_id rows k = Some i1))"
proof -
  note T = created_then_fetched [of empty_db some_student _ _ orphan_result some_fee some_class]
  note U = created_then_fetched [of one_book _ _ _ _ _ _ open_issue]
  have n: "fee_id some_fee = None" by (simp add: some_fee_def)
  from T have A: "\<exists>d1 s k. create_student empty_db some_student = Inr (d1, s) \<and> student_id s = Some k
       \<and> student_name s = student_name some_student
       \<and> student_contact_number s = student_contact_number some_student
       \<and> student_dob s = student_dob some_student
       \<and> get_student d1 k = Inr (d1, s)" by blast
  from T n obtain d1 f1 where a: "add_fee empty_db some_fee = Inr (d1, f1)" by blast
  with T have "\<exists>k. fee_id f1 = Some k \<and> fee_student_id f1 = fee_student_id some_fee
           \<and> amount f1 = amount some_fee \<and> due_date f1 = due_date some_fee
           \<and> paid f1 = paid some_fee \<and> get_fee d1 k = Inr (d1, f1)" by blast
  with a have B: "\<exists>d1 f1 k. add_fee empty_db some_fee = Inr (d1, f1) \<and> fee_id f1 = Some k
       \<and> amount f1 = amount some_fee \<and> due_date f1 = due_date some_fee
       \<and> paid f1 = paid some_fee \<and> get_fee d1 k = Inr (d1, f1)" by blast
  from T have C: "\<exists>d1 c k. create_classroom empty_db some_class = Inr (d1, c) \<and> classroom_id c = Some k
       \<and> class_name c = class_name some_class \<and> std c = std some_class \<and> sec c = sec some_class
       \<and> class_teacher c = class_teacher some_class
       \<and> (\<exists>rows. list_classrooms d1 = Inr (d1, rows)
             \<and> session_get classroom_id rows k = Some c)" by blast
  have h: "session_get book_id (books one_book) (issue_book_id open_issue)
     = Some \<lparr>title = ''T'', author = ''A'', isbn = ''I'', total_copies = 1, book_id = Some 1,
             available_copies = 1\<rparr>
     \<and> 1 \<le> available_copies \<lparr>title = ''T'', author = ''A'', isbn = ''I'', total_copies = 1,
             book_id = Some 1, available_copies = 1\<rparr>
     \<and> issue_id open_issue = None"
    by (simp add: one_book_eq open_issue_def session_get_def empty_db_def)
  from U h obtain d2 i2 where b: "issue_book one_book open_issue = Inr (d2, i2)" by blast
  with U have "\<exists>k. issue_id i2 = Some k \<and> issue_student_id i2 = issue_student_id open_issue
           \<and> issue_book_id i2 = issue_book_id open_issue \<and> issue_date i2 = issue_date open_issue
           \<and> return_date i2 = return_date open_issue
           \<and> (\<exists>rows. student_issues d2 (issue_student_id open_issue) = Inr (d2, rows)
                 \<and> session_get issue_id rows k = Some i2)" by blast
  with b have D: "\<exists>d1 i1 k. issue_book one_book open_issue = Inr (d1, i1) \<and> issue_id i1 = Some k
       \<and> issue_student_id i1 = issue_student_id open_issue
       \<and> issue_book_id i1 = issue_book_id open_issue \<and> issue_date i1 = issue_date open_issue
       \<and> return_date i1 = return_date open_issue
       \<and> (\<exists>rows. student_issues d1 (issue_student_id open_issue) = Inr (d1, rows)
             \<and> session_get issue_id rows k = Some i1)" by blast
  from A B C D n show ?thesis
    by (simp add: some_student_def some_fee_def some_class_def open_issue_def)
qed

subsection \<open>The roster\<close>

lemma roster_distinct_step:
  assumes "distinct (classroom_students d)"
  shows "distinct (classroom_students (fst (handle today d rq)))"
  using assms
  by (cases rq)
     (auto simp: respond_fst create_student_def list_students_def get_student_def
        update_student_def delete_student_def create_staff_def list_staff_def get_staff_def
        update_staff_def delete_staff_def create_classroom_def list_classrooms_def
        add_student_to_class_def remove_student_from_class_def get_class_students_def
        add_book_def list_books_def get_book_def issue_book_def return_book_def
        student_issues_def add_result_def list_results_def
        get_results_def get_result_def delete_result_def add_fee_def get_fees_def list_fees_def
        get_fee_def update_fee_def delete_fee_def session_add_def Let_def
        split: sum.splits option.splits prod.splits if_splits)

lemma roster_distinct_run:
  "distinct (classroom_students d) \<Longrightarrow> distinct (classroom_students (run d rqs))"
proof (induction rqs arbitrary: d)
  case Nil
  then show ?case by simp
next
  case (Cons a rqs)
  obtain t rq where a: "a = (t, rq)" by (cases a)
  show ?case using Cons.IH [OF roster_distinct_step [OF Cons.prems, of t rq]] a by simp
qed

text \<open>
  C6. For every classroom identifier and student identifier: when either is unknown,
  \<open>add_student_to_class\<close> and \<open>remove_student_from_class\<close> raise the HTTP error 404, whether
  or not the pair is in the link table (the lookup comes before the membership test).
  When both exist: enrolling a student who is in the classroom raises 400 and leaves the
  store unchanged, unenrolling one who is not raises 400 and leaves the store unchanged;
  otherwise the pair is appended to, or removed from, the link table. Both operations keep
  the pairs of the link table distinct, and they are distinct in every reachable store.
\<close>

theorem roster_checks:
  "((session_get classroom_id (classrooms d) cid = None
       \<or> session_get student_id (students d) sid = None) \<longrightarrow>
        add_student_to_class d cid sid = Inl (HTTPException 404 ''Class or Student not found'')
      \<and> remove_student_from_class d cid sid
          = Inl (HTTPException 404 ''Class or Student not found''))
   \<and> (\<forall>c s. session_get classroom_id (classrooms d) cid = Some c
            \<and> session_get student_id (students d) sid = Some s \<longrightarrow>
        (if link cid sid \<in> set (classroom_students d)
         then add_student_to_class d cid sid = Inl (HTTPException 400 ''Student already in class'')
            \<and> fst (handle today d (AddStudentToClass cid sid)) = d
            \<and> remove_student_from_class d cid sid
                = Inr (d\<lparr>classroom_students :=
                          filter (\<lambda>l. l \<noteq> link cid sid) (classroom_students d)\<rparr>, c)
         else remove_student_from_class d cid sid = Inl (HTTPException 400 ''Student not in class'')
            \<and> fst (handle today d (RemoveStudentFromClass cid sid)) = d
            \<and> add_student_to_class d cid sid
                = Inr (d\<lparr>classroom_students := classroom_students d @ [link cid sid]\<rparr>, c)))
   \<and> (distinct (classroom_students d) \<longrightarrow>
        distinct (classroom_students (fst (handle today d (AddStudentToClass cid sid))))
      \<and> distinct (classroom_students (fst (handle today d (RemoveStudentFromClass cid sid)))))
   \<and> distinct (classroom_students (run empty_db rqs))"
proof -
  have 1: "(session_get classroom_id (classrooms d) cid = None
       \<or> session_get student_id (students d) sid = None) \<longrightarrow>
        add_student_to_class d cid sid = Inl (HTTPException 404 ''Class or Student not found'')
      \<and> remove_student_from_class d cid sid
          = Inl (HTTPException 404 ''Class or Student not found'')"
    by (auto simp: add_student_to_class_def remove_student_from_class_def split: option.splits)
  have 2: "\<forall>c s. session_get classroom_id (classrooms d) cid = Some c
            \<and> session_get student_id (students d) sid = Some s \<longrightarrow>
        (if link cid sid \<in> set (classroom_students d)
         then add_student_to_class d cid sid = Inl (HTTPException 400 ''Student already in class'')
            \<and> fst (handle today d (AddStudentToClass cid sid)) = d
            \<and> remove_student_from_class d cid sid
                = Inr (d\<lparr>classroom_students :=
                          filter (\<lambda>l. l \<noteq> link cid sid) (classroom_students d)\<rparr>, c)
         else remove_student_from_class d cid sid = Inl (HTTPException 400 ''Student not in class'')
            \<and> fst (handle today d (RemoveStudentFromClass cid sid)) = d
            \<and> add_student_to_class d cid sid
                = Inr (d\<lparr>classroom_students := classroom_students d @ [link cid sid]\<rparr>, c))"
    by (auto simp: add_student_to_class_def remove_student_from_class_def respond_fst)
  have 3: "distinct (classroom_students d) \<longrightarrow>
        distinct (classroom_students (fst (handle today d (AddStudentToClass cid sid))))
      \<and> distinct (classroom_students (fst (handle today d (RemoveStudentFromClass cid sid))))"
    using roster_distinct_step by blast
  have 4: "distinct (classroom_students (run empty_db rqs))"
    by (rule roster_distinct_run) (simp add: empty_db_def)
  from 1 2 3 4 show ?thesis by blast
qed

lemma enrolled_eq:
  "enrolled = empty_db\<lparr>
     students := [\<lparr>student_name = ''S'', student_contact_number = ''0'',
                   student_dob = Date 2010 1 1, student_id = Some 1\<rparr>],
     classrooms := [\<lparr>class_name = ''C'', std = ''5'', sec = ''A'', class_teacher = ''M'',
                     classroom_id = Some 1\<rparr>],
     classroom_students := [link 1 1]\<rparr>"
  by (simp add: enrolled_def some_student_def some_class_def create_student_def
        create_classroom_def add_student_to_class_def handler_defs)

theorem roster_checks_witness:
  "session_get classroom_id (classrooms enrolled) 1
     = Some \<lparr>class_name = ''C'', std = ''5'', sec = ''A'', class_teacher = ''M'',
             classroom_id = Some 1\<rparr>
   \<and> session_get student_id (students enrolled) 1
     = Some \<lparr>student_name = ''S'', student_contact_number = ''0'',
             student_dob = Date 2010 1 1, student_id = Some 1\<rparr>
   \<and> link 1 1 \<in> set (classroom_students enrolled)
   \<and> add_student_to_class enrolled 1 1 = Inl (HTTPException 400 ''Student already in class'')
   \<and> fst (handle (Date 2024 1 3) enrolled (AddStudentToClass 1 1)) = enrolled
   \<and> remove_student_from_class enrolled 1 1
       = Inr (enrolled\<lparr>classroom_students := []\<rparr>,
              \<lparr>class_name = ''C'', std = ''5'', sec = ''A'', class_teacher = ''M'',
               classroom_id = Some 1\<rparr>)
   \<and> session_get classroom_id (classrooms enrolled) 5 = None
   \<and> add_student_to_class enrolled 5 1 = Inl (HTTPException 404 ''Class or Student not found'')
   \<and> remove_student_from_class enrolled 5 1
       = Inl (HTTPException 404 ''Class or Student not found'')"
proof -
  have c: "session_get classroom_id (classrooms enrolled) 1
     = Some \<lparr>class_name = ''C'', std = ''5'', sec = ''A'', class_teacher = ''M'',
             classroom_id = Some 1\<rparr>"
    by (simp add: enrolled_eq session_get_def empty_db_def)
  have s: "session_get student_id (students enrolled) 1
     = Some \<lparr>student_name = ''S'', student_contact_number = ''0'',
             student_dob = Date 2010 1 1, student_id = Some 1\<rparr>"
    by (simp add: enrolled_eq session_get_def empty_db_def)
  have m: "link 1 1 \<in> set (classroom_students enrolled)"
    by (simp add: enrolled_eq empty_db_def)
  have f: "filter (\<lambda>l. l \<noteq> link 1 1) (classroom_students enrolled) = []"
    by (simp add: enrolled_eq empty_db_def)
  have n: "session_get classroom_id (classrooms enrolled) 5 = None"
    by (simp add: enrolled_eq session_get_def empty_db_def)
  from roster_checks [of enrolled 1 1 "Date 2024 1 3" "[]"] c s m f
  have a: "add_student_to_class enrolled 1 1 = Inl (HTTPException 400 ''Student already in class'')
   \<and> fst (handle (Date 2024 1 3) enrolled (AddStudentToClass 1 1)) = enrolled
   \<and> remove_student_from_class enrolled 1 1
       = Inr (enrolled\<lparr>classroom_students := []\<rparr>,
              \<lparr>class_name = ''C'', std = ''5'', sec = ''A'', class_teacher = ''M'',
               classroom_id = Some 1\<rparr>)"
    by (simp del: handle.simps)
  from roster_checks [of enrolled 5 1 "Date 2024 1 3" "[]"] n
  have b: "add_student_to_class enrolled 5 1 = Inl (HTTPException 404 ''Class or Student not found'')
   \<and> remove_student_from_class enrolled 5 1
       = Inl (HTTPException 404 ''Class or Student not found'')"
    by blast
  from a b c s m n show ?thesis by blast
qed

subsection \<open>References to rows that do not exist\<close>

text \<open>
  C5. The models declare \<open>student_id\<close> of \<open>Issue\<close>, \<open>ExamResult\<close> and \<open>ExamFee\<close> as a foreign
  key of the student table, but \<open>add_result\<close> and \<open>add_fee\<close> look nothing up,
  \<open>issue_book\<close> looks up only the book, and the engine is never told to enforce foreign
  keys. What the handlers do with a \<open>student_id\<close> that is the key of no student: on the
  empty store \<open>add_result\<close> stores and returns a result for student 99 and \<open>add_fee\<close> a fee
  for student 1, and on a store with one book and no student \<open>issue_book\<close> creates an
  issue for student 7 and takes a copy of the book. None of the three requests is
  refused.
\<close>

theorem unchecked_student_references:
  "session_get student_id (students empty_db) (result_student_id orphan_result) = None
   \<and> add_result empty_db orphan_result
     = Inr (empty_db\<lparr>exam_results := [\<lparr>result_id = Some 1, result_student_id = 99,
                                          exam_name = ''E'', marks_obtained = 1, max_marks = 2\<rparr>]\<rparr>,
            \<lparr>result_id = Some 1, result_student_id = 99,
             exam_name = ''E'', marks_obtained = 1, max_marks = 2\<rparr>)
   \<and> session_get student_id (students empty_db) (fee_student_id some_fee) = None
   \<and> add_fee empty_db some_fee
     = Inr (empty_db\<lparr>exam_fees := [\<lparr>fee_id = Some 1, fee_student_id = 1, amount = 10,
                                       due_date = Date 2024 6 1, paid = False\<rparr>]\<rparr>,
            \<lparr>fee_id = Some 1, fee_student_id = 1, amount = 10,
             due_date = Date 2024 6 1, paid = False\<rparr>)
   \<and> session_get student_id (students one_book) (issue_student_id open_issue) = None
   \<and> issue_book one_book open_issue
     = Inr (lent_out, \<lparr>issue_id = Some 1, issue_student_id = 7, issue_book_id = 1,
                        issue_date = Date 2024 1 2, return_date = None\<rparr>)"
  by (simp add: orphan_result_def some_fee_def open_issue_def add_result_def add_fee_def
        lent_out_eq one_book_eq handler_defs)

subsection \<open>Updating a fee\<close>

lemma one_fee_eq:
  "one_fee = empty_db\<lparr>exam_fees := [\<lparr>fee_id = Some 1, fee_student_id = 1, amount = 10,
                                       due_date = Date 2024 6 1, paid = False\<rparr>]\<rparr>"
  by (simp add: one_fee_def some_fee_def add_fee_def handler_defs)

text \<open>
  C7. For an existing fee, the object \<open>update_fee\<close> returns and stores has, field by
  field, the value the body set, or the stored value where the body set none. A body
  that does not set the identifier always succeeds. A body that sets only \<open>paid\<close> succeeds
  and gives the stored fee with \<open>paid\<close> replaced: \<open>amount\<close> and \<open>due_date\<close> are unchanged.
\<close>

theorem update_fee_merges:
  assumes "session_get fee_id (exam_fees d) fid = Some f"
  shows "(\<forall>d1 f1. update_fee d fid fee = Inr (d1, f1) \<longrightarrow>
            fee_id f1 = (case set_id fee of None \<Rightarrow> fee_id f | Some v \<Rightarrow> v)
          \<and> fee_student_id f1 = (case set_student_id fee of None \<Rightarrow> fee_student_id f | Some v \<Rightarrow> v)
          \<and> amount f1 = (case set_amount fee of None \<Rightarrow> amount f | Some v \<Rightarrow> v)
          \<and> due_date f1 = (case set_due_date fee of None \<Rightarrow> due_date f | Some v \<Rightarrow> v)
          \<and> paid f1 = (case set_paid fee of None \<Rightarrow> paid f | Some v \<Rightarrow> v)
          \<and> exam_fees d1 = session_update fee_id fid f1 (exam_fees d))
       \<and> (set_id fee = None \<longrightarrow>
            (\<exists>d1 f1. update_fee d fid fee = Inr (d1, f1)
                \<and> session_get fee_id (exam_fees d1) fid = Some f1))
       \<and> (set_id fee = None \<and> set_student_id fee = None \<and> set_amount fee = None
            \<and> set_due_date fee = None \<and> set_paid fee = Some p \<longrightarrow>
            (\<exists>d1 f1. update_fee d fid fee = Inr (d1, f1) \<and> f1 = f\<lparr>paid := p\<rparr>
                \<and> amount f1 = amount f \<and> due_date f1 = due_date f
                \<and> session_get fee_id (exam_fees d1) fid = Some f1))"
proof -
  from session_get_Some [OF assms] have fk: "fee_id f = Some fid" by simp
  have 1: "\<forall>d1 f1. update_fee d fid fee = Inr (d1, f1) \<longrightarrow>
            fee_id f1 = (case set_id fee of None \<Rightarrow> fee_id f | Some v \<Rightarrow> v)
          \<and> fee_student_id f1 = (case set_student_id fee of None \<Rightarrow> fee_student_id f | Some v \<Rightarrow> v)
          \<and> amount f1 = (case set_amount fee of None \<Rightarrow> amount f | Some v \<Rightarrow> v)
          \<and> due_date f1 = (case set_due_date fee of None \<Rightarrow> due_date f | Some v \<Rightarrow> v)
          \<and> paid f1 = (case set_paid fee of None \<Rightarrow> paid f | Some v \<Rightarrow> v)
          \<and> exam_fees d1 = session_update fee_id fid f1 (exam_fees d)"
    using assms
    by (auto simp: update_fee_def setattrs_def Let_def split: option.splits if_splits)
  have ok: "set_id fee = None \<Longrightarrow>
     update_fee d fid fee
       = Inr (d\<lparr>exam_fees := session_update fee_id fid (setattrs f fee) (exam_fees d)\<rparr>,
              setattrs f fee)"
    using assms fk by (simp add: update_fee_def setattrs_def Let_def)
  have get: "set_id fee = None \<Longrightarrow>
     session_get fee_id (session_update fee_id fid (setattrs f fee) (exam_fees d)) fid
       = Some (setattrs f fee)"
    using fk by (intro session_get_update_same [OF assms]) (simp add: setattrs_def)
  have 2: "set_id fee = None \<longrightarrow>
            (\<exists>d1 f1. update_fee d fid fee = Inr (d1, f1)
                \<and> session_get fee_id (exam_fees d1) fid = Some f1)"
    using ok get by simp
  have 3: "set_id fee = None \<and> set_student_id fee = None \<and> set_amount fee = None
            \<and> set_due_date fee = None \<and> set_paid fee = Some p \<longrightarrow>
            (\<exists>d1 f1. update_fee d fid fee = Inr (d1, f1) \<and> f1 = f\<lparr>paid := p\<rparr>
                \<and> amount f1 = amount f \<and> due_date f1 = due_date f
                \<and> session_get fee_id (exam_fees d1) fid = Some f1)"
  proof (intro impI)
    assume a: "set_id fee = None \<and> set_student_id fee = None \<and> set_amount fee = None
            \<and> set_due_date fee = None \<and> set_paid fee = Some p"
    then have m: "setattrs f fee = f\<lparr>paid := p\<rparr>" by (simp add: setattrs_def)
    from a ok get m show "\<exists>d1 f1. update_fee d fid fee = Inr (d1, f1) \<and> f1 = f\<lparr>paid := p\<rparr>
                \<and> amount f1 = amount f \<and> due_date f1 = due_date f
                \<and> session_get fee_id (exam_fees d1) fid = Some f1" by simp
  qed
  from 1 2 3 show ?thesis by blast
qed

theorem update_fee_merges_witness:
  "session_get fee_id (exam_fees one_fee) 1
     = Some \<lparr>fee_id = Some 1, fee_student_id = 1, amount = 10, due_date = Date 2024 6 1,
             paid = False\<rparr>
   \<and> (\<exists>d1. update_fee one_fee 1 only_paid
              = Inr (d1, \<lparr>fee_id = Some 1, fee_student_id = 1, amount = 10,
                          due_date = Date 2024 6 1, paid = True\<rparr>)
          \<and> session_get fee_id (exam_fees d1) 1
              = Some \<lparr>fee_id = Some 1, fee_student_id = 1, amount = 10,
                      due_date = Date 2024 6 1, paid = True\<rparr>)"
proof -
  have h: "session_get fee_id (exam_fees one_fee) 1
     = Some \<lparr>fee_id = Some 1, fee_student_id = 1, amount = 10, due_date = Date 2024 6 1,
             paid = False\<rparr>"
    by (simp add: one_fee_eq session_get_def empty_db_def)
  have b: "set_id only_paid = None \<and> set_student_id only_paid = None \<and> set_amount only_paid = None
            \<and> set_due_date only_paid = None \<and> set_paid only_paid = Some True"
    by (simp add: only_paid_def)
  from update_fee_merges [OF h, of only_paid True] b
  have "\<exists>d1 f1. update_fee one_fee 1 only_paid = Inr (d1, f1)
          \<and> f1 = \<lparr>fee_id = Some 1, fee_student_id = 1, amount = 10, due_date = Date 2024 6 1,
                   paid = False\<rparr>\<lparr>paid := True\<rparr>
          \<and> session_get fee_id (exam_fees d1) 1 = Some f1"
    by blast
  with h show ?thesis by simp
qed

end
